theory Spec2Isabelle
  imports Complex_Main
begin

section \<open>Python values\<close>

text \<open>
  The chat backend of \<^verbatim>\<open>src/main.py\<close> moves JSON around: request bodies, the dictionaries
  returned by the reply adapters, the bodies answered by remote services. Every such value
  is a \<open>json\<close>; a Python \<^verbatim>\<open>dict\<close> is an association list in insertion order, looked up from
  the front (a dictionary has every key once). Strings are byte strings (UTF-8); numbers are rationals, so the binary
  representation of Python floats is not modelled.
\<close>

datatype json =
    JNull
  | JBool bool
  | JNum rat
  | JStr string
  | JArr "json list"
  | JObj "(string \<times> json) list"

text \<open>Exceptions that reach a caller. \<open>AttributeError\<close> is what Python raises for
  \<^verbatim>\<open>x.get(...)\<close> or \<^verbatim>\<open>x.lower()\<close> on a value that has no such method;
  \<open>CollaboratorError\<close> is any exception raised inside a collaborator (a local module, the
  OpenAI package).\<close>

datatype error = AttributeError | CollaboratorError string

text \<open>Truth value of a Python object in \<^verbatim>\<open>if x\<close>, \<^verbatim>\<open>not x\<close>, \<^verbatim>\<open>x or y\<close>, \<^verbatim>\<open>bool(x)\<close>.\<close>

fun truthy :: "json \<Rightarrow> bool" where
  "truthy JNull = False"
| "truthy (JBool b) = b"
| "truthy (JNum n) = (n \<noteq> 0)"
| "truthy (JStr s) = (s \<noteq> [])"
| "truthy (JArr xs) = (xs \<noteq> [])"
| "truthy (JObj kv) = (kv \<noteq> [])"

definition py_or :: "json \<Rightarrow> json \<Rightarrow> json" where
  "py_or a b = (if truthy a then a else b)"

text \<open>\<^verbatim>\<open>d.get(k, default)\<close> on a dictionary.\<close>

definition dget :: "(string \<times> json) list \<Rightarrow> string \<Rightarrow> json \<Rightarrow> json" where
  "dget kv k d = (case map_of kv k of None \<Rightarrow> d | Some v \<Rightarrow> v)"

text \<open>\<^verbatim>\<open>x.get(k, default)\<close> on any value: only a dictionary has the method.\<close>

fun py_get :: "json \<Rightarrow> string \<Rightarrow> json \<Rightarrow> error + json" where
  "py_get (JObj kv) k d = Inr (dget kv k d)"
| "py_get _ k d = Inl AttributeError"

text \<open>\<^verbatim>\<open>d[k] = v\<close>: an existing key keeps its place, a new key goes last.\<close>

fun dict_set :: "(string \<times> json) list \<Rightarrow> string \<Rightarrow> json \<Rightarrow> (string \<times> json) list" where
  "dict_set [] k v = [(k, v)]"
| "dict_set ((k', v') # kv) k v = (if k' = k then (k, v) # kv else (k', v') # dict_set kv k v)"

text \<open>\<^verbatim>\<open>d.update(extra)\<close>.\<close>

definition dict_update :: "(string \<times> json) list \<Rightarrow> (string \<times> json) list \<Rightarrow> (string \<times> json) list" where
  "dict_update d extra = fold (\<lambda>(k, v) acc. dict_set acc k v) extra d"

subsection \<open>String methods\<close>

text \<open>\<^verbatim>\<open>str.lower()\<close> on the ASCII letters; bytes of multi-byte characters are left alone.
  Python also lowers the letters outside ASCII. The lowered prompt is never shown, only
  searched for keywords made of ASCII letters, and the two code points outside ASCII whose
  lowercase has an ASCII letter (U+0130, lowered to \<^verbatim>\<open>i\<close> followed by U+0307, and U+212A,
  lowered to \<^verbatim>\<open>k\<close>) complete none of the keywords: every test on the lowered prompt comes
  out as in Python.\<close>

definition lower_char :: "char \<Rightarrow> char" where
  "lower_char c =
     (case map_of (zip ''ABCDEFGHIJKLMNOPQRSTUVWXYZ'' ''abcdefghijklmnopqrstuvwxyz'') c of
        None \<Rightarrow> c | Some l \<Rightarrow> l)"

definition lower :: "string \<Rightarrow> string" where
  "lower s = map lower_char s"

text \<open>\<^verbatim>\<open>str.strip()\<close>: white space goes from both ends. Python's white space is the code
  points 9 to 13, 28 to 31, 32, U+0085, U+00A0, U+1680, U+2000 to U+200A, U+2028, U+2029,
  U+202F, U+205F and U+3000. In UTF-8 the first ten are single bytes (\<open>is_space\<close>), U+0085
  and U+00A0 are two bytes (\<open>is_space2\<close>) and the others three (\<open>is_space3\<close>).\<close>

definition is_space :: "char \<Rightarrow> bool" where
  "is_space c = (c \<in> set [CHR 0x09, CHR 0x0A, CHR 0x0B, CHR 0x0C, CHR 0x0D,
                           CHR 0x1C, CHR 0x1D, CHR 0x1E, CHR 0x1F, CHR 0x20])"

definition is_space2 :: "char \<Rightarrow> char \<Rightarrow> bool" where
  "is_space2 a b = (a = CHR 0xC2 \<and> b \<in> set [CHR 0x85, CHR 0xA0])"

definition is_space3 :: "char \<Rightarrow> char \<Rightarrow> char \<Rightarrow> bool" where
  "is_space3 a b c =
     ((a = CHR 0xE1 \<and> b = CHR 0x9A \<and> c = CHR 0x80)
      \<or> (a = CHR 0xE2 \<and> b = CHR 0x80
           \<and> c \<in> set [CHR 0x80, CHR 0x81, CHR 0x82, CHR 0x83, CHR 0x84, CHR 0x85, CHR 0x86,
                        CHR 0x87, CHR 0x88, CHR 0x89, CHR 0x8A, CHR 0xA8, CHR 0xA9, CHR 0xAF])
      \<or> (a = CHR 0xE2 \<and> b = CHR 0x81 \<and> c = CHR 0x9F)
      \<or> (a = CHR 0xE3 \<and> b = CHR 0x80 \<and> c = CHR 0x80))"

text \<open>White space is dropped from the front, one code point at a time; \<open>two\<close> and \<open>three\<close>
  recognise the multi-byte code points in the order the bytes come.\<close>

fun drop_space ::
    "(char \<Rightarrow> char \<Rightarrow> bool) \<Rightarrow> (char \<Rightarrow> char \<Rightarrow> char \<Rightarrow> bool) \<Rightarrow> string \<Rightarrow> string" where
  "drop_space two three (a # b # c # s) =
     (if is_space a then drop_space two three (b # c # s)
      else if two a b then drop_space two three (c # s)
      else if three a b c then drop_space two three s
      else a # b # c # s)"
| "drop_space two three [a, b] =
     (if is_space a then drop_space two three [b]
      else if two a b then []
      else [a, b])"
| "drop_space two three [a] = (if is_space a then [] else [a])"
| "drop_space two three [] = []"

text \<open>The end of the string is stripped on the reversed string, where the bytes of a code
  point come last byte first.\<close>

definition strip :: "string \<Rightarrow> string" where
  "strip s =
     rev (drop_space (\<lambda>a b. is_space2 b a) (\<lambda>a b c. is_space3 c b a)
            (rev (drop_space is_space2 is_space3 s)))"

text \<open>\<^verbatim>\<open>s.rstrip("/")\<close>.\<close>

definition rstrip_slash :: "string \<Rightarrow> string" where
  "rstrip_slash s = rev (dropWhile (\<lambda>c. c = CHR ''/'') (rev s))"

text \<open>\<^verbatim>\<open>s.startswith(t)\<close> and the substring test \<^verbatim>\<open>t in s\<close>.\<close>

fun startswith :: "string \<Rightarrow> string \<Rightarrow> bool" where
  "startswith s [] = True"
| "startswith [] (c # cs) = False"
| "startswith (x # xs) (c # cs) = (x = c \<and> startswith xs cs)"

fun contains :: "string \<Rightarrow> string \<Rightarrow> bool" where
  "contains [] t = (t = [])"
| "contains (x # xs) t = (startswith (x # xs) t \<or> contains xs t)"

text \<open>The em dash of the canned replies, as its three UTF-8 bytes.\<close>

definition em_dash :: string where
  "em_dash = [CHR 0xE2, CHR 0x80, CHR 0x94]"

section \<open>The world around a request\<close>

text \<open>
  Everything a request does besides computing is written to a trace, in order. The ghost
  events \<open>Invoke\<close> and \<open>FallbackCall\<close> mark the entry of a reply adapter and of
  \<open>simple_fallback_reply\<close>; the others are the interactions with the outside: an HTTP POST,
  a clock reading, a call into a local module, a request to the OpenAI package, an append
  to \<^verbatim>\<open>data/events.log\<close>, a database transaction, a line of the logger.
\<close>

datatype adapter = Microservice | LocalModule | Provider

datatype effect =
    Invoke adapter
  | FallbackCall
  | HttpPost string json
  | ClockRead
  | LocalCall string "json list"
  | OpenAIRequest string
  | FileAppend json
  | EventInsert string json
  | ChatLogInsert json json json rat
  | LogException string
  | LogWarning string

type_synonym trace = "effect list"

datatype kind = KPost | KClock | KLocal | KOpenAI | KFile | KDb

fun kind_of :: "effect \<Rightarrow> kind option" where
  "kind_of (HttpPost _ _) = Some KPost"
| "kind_of ClockRead = Some KClock"
| "kind_of (LocalCall _ _) = Some KLocal"
| "kind_of (OpenAIRequest _) = Some KOpenAI"
| "kind_of (FileAppend _) = Some KFile"
| "kind_of (EventInsert _ _) = Some KDb"
| "kind_of (ChatLogInsert _ _ _ _) = Some KDb"
| "kind_of _ = None"

text \<open>How many interactions of a kind have happened: the outside answers the next one
  by its number, so two calls with the same arguments may be answered differently.\<close>

definition seen :: "kind \<Rightarrow> trace \<Rightarrow> nat" where
  "seen k tr = length (filter (\<lambda>e. kind_of e = Some k) tr)"

text \<open>What \<^verbatim>\<open>openai.chat.completions.create\<close> hands back, as far as \<open>ai_call_openai\<close>
  looks at it: an object whose \<^verbatim>\<open>choices\<close> attribute is truthy (reading
  \<^verbatim>\<open>choices[0].message.content\<close> raises or gives a text), a plain dictionary with a
  \<^verbatim>\<open>"choices"\<close> key (indexing it raises or gives a value), or anything else.\<close>

datatype openai_resp =
    RespChoices "error + string"
  | RespDict "error + json"
  | RespOther

text \<open>The optional module \<^verbatim>\<open>ai_engine\<close>: a field is \<open>None\<close> when the module has no such
  attribute (\<^verbatim>\<open>hasattr\<close> is false).\<close>

record local_ai_module =
  ai_generate :: "(nat \<Rightarrow> json \<Rightarrow> json \<Rightarrow> error + json) option"
  generate_reply :: "(nat \<Rightarrow> json \<Rightarrow> json \<Rightarrow> error + json) option"
  chat :: "(nat \<Rightarrow> json \<Rightarrow> error + json) option"
  ai_generate_openai :: "(nat \<Rightarrow> json \<Rightarrow> json \<Rightarrow> error + json) option"
  openai_generate :: "(nat \<Rightarrow> json \<Rightarrow> json \<Rightarrow> error + json) option"
  crypto_summary :: "(nat \<Rightarrow> error + json) option"

text \<open>
  The configuration read from the process environment at start-up, the optional local
  modules, and the outside world as functions of the interaction number:
  \<^item> \<open>http_post n url payload\<close>: the \<open>n\<close>-th \<^verbatim>\<open>requests.post\<close>; \<open>Inl\<close> is the text of the
    exception (transport error, time-out, non-success status, body that is not JSON),
    \<open>Inr\<close> the parsed body \<^verbatim>\<open>r.json()\<close>;
  \<^item> \<open>clock\<close> is \<^verbatim>\<open>time.time()\<close> and \<open>utcnow\<close> is
    \<^verbatim>\<open>datetime.utcnow().strftime('%Y-%m-%d %H:%M:%S UTC')\<close> at the \<open>n\<close>-th reading;
  \<^item> \<open>file_write_ok n\<close>, \<open>db_commit_ok n\<close>: whether the \<open>n\<close>-th append to the event file and
    the \<open>n\<close>-th database transaction go through;
  \<^item> \<open>py_str\<close> is Python's \<^verbatim>\<open>str()\<close>.
  \<^item> \<open>latency_of start now\<close> is \<^verbatim>\<open>round(now - start, 3)\<close> on Python's floats: subtraction
    and rounding of binary floating-point numbers are taken from the world, not computed.
\<close>

record env =
  NEURA_ADMIN_TOKEN :: string
  OPENAI_API_KEY :: string
  NEURA_MODEL :: string
  AI_SERVICE_URL :: "string option"
  VOICE_SERVICE_URL :: "string option"
  local_ai :: "local_ai_module option"
  local_voice_speak_text :: "(nat \<Rightarrow> json \<Rightarrow> json \<Rightarrow> json \<Rightarrow> error + json) option"
  http_post :: "nat \<Rightarrow> string \<Rightarrow> json \<Rightarrow> string + json"
  openai_installed :: bool
  openai_chat :: "nat \<Rightarrow> string \<Rightarrow> json \<Rightarrow> error + openai_resp"
  openai_completion :: "nat \<Rightarrow> string \<Rightarrow> json \<Rightarrow> error + string"
  clock :: "nat \<Rightarrow> rat"
  utcnow :: "nat \<Rightarrow> string"
  file_write_ok :: "nat \<Rightarrow> bool"
  db_commit_ok :: "nat \<Rightarrow> bool"
  py_str :: "json \<Rightarrow> string"
  latency_of :: "rat \<Rightarrow> rat \<Rightarrow> rat"

text \<open>\<^verbatim>\<open>if URL\<close> on an optional environment variable: unset and empty are both false.\<close>

fun configured :: "string option \<Rightarrow> string option" where
  "configured None = None"
| "configured (Some u) = (if u = [] then None else Some u)"

section \<open>Helpers of \<^verbatim>\<open>main.py\<close>\<close>

text \<open>\<open>proxy_post\<close>: the POST, \<^verbatim>\<open>raise_for_status\<close> and \<^verbatim>\<open>r.json()\<close> sit in one
  \<^verbatim>\<open>try\<close>; any exception is logged and becomes the dictionary
  \<^verbatim>\<open>{"ok": False, "error": str(e)}\<close>. A body that parses is returned as it is, whatever
  JSON value it is.\<close>

definition proxy_post :: "env \<Rightarrow> string \<Rightarrow> json \<Rightarrow> trace \<Rightarrow> json \<times> trace" where
  "proxy_post e url payload tr =
     (case http_post e (seen KPost tr) url payload of
        Inr body \<Rightarrow> (body, tr @ [HttpPost url payload])
      | Inl msg \<Rightarrow> (JObj [(''ok'', JBool False), (''error'', JStr msg)],
                    tr @ [HttpPost url payload, LogException ''proxy_post failed'']))"

definition append_event_db :: "env \<Rightarrow> string \<Rightarrow> json \<Rightarrow> trace \<Rightarrow> trace" where
  "append_event_db e event_type payload tr =
     (if db_commit_ok e (seen KDb tr) then tr @ [EventInsert event_type payload]
      else tr @ [EventInsert event_type payload, LogException ''append_event_db failed''])"

definition append_event_file :: "env \<Rightarrow> json \<Rightarrow> trace \<Rightarrow> trace" where
  "append_event_file e payload tr =
     (if file_write_ok e (seen KFile tr) then tr @ [FileAppend payload]
      else tr @ [FileAppend payload, LogException ''append_event_file failed''])"

text \<open>\<open>append_event\<close> reads the clock for the \<^verbatim>\<open>ts\<close> field, hands the line to
  \<open>append_event_file\<close>, then calls \<open>append_event_db\<close>. Both callees catch every exception
  themselves, so the \<^verbatim>\<open>except: pass\<close> around the second call never fires; the result is
  \<open>Inr ()\<close> (the function returns \<^verbatim>\<open>None\<close>) on every path.\<close>

definition append_event :: "env \<Rightarrow> string \<Rightarrow> json \<Rightarrow> trace \<Rightarrow> (error + unit) \<times> trace" where
  "append_event e event_type payload tr =
     (let ts = clock e (seen KClock tr);
          tr1 = tr @ [ClockRead];
          tr2 = append_event_file e
                  (JObj [(''type'', JStr event_type), (''payload'', payload), (''ts'', JNum ts)]) tr1;
          tr3 = append_event_db e event_type payload tr2
      in (Inr (), tr3))"

section \<open>Reply adapters\<close>

definition failed :: "string \<Rightarrow> json" where
  "failed reason = JObj [(''ok'', JBool False), (''error'', JStr reason)]"

definition replied :: "json \<Rightarrow> json" where
  "replied out = JObj [(''ok'', JBool True), (''reply'', out)]"

text \<open>\<open>ai_call_microservice\<close>; \<open>extra\<close> is \<open>[]\<close> for \<^verbatim>\<open>None\<close> and for the empty
  dictionary, which the source treats alike.\<close>

definition ai_call_microservice ::
    "env \<Rightarrow> json \<Rightarrow> json \<Rightarrow> (string \<times> json) list \<Rightarrow> trace \<Rightarrow> json \<times> trace" where
  "ai_call_microservice e prompt user extra tr =
     (let tr0 = tr @ [Invoke Microservice] in
      case configured (AI_SERVICE_URL e) of
        None \<Rightarrow> (failed ''no_microservice'', tr0)
      | Some base \<Rightarrow>
          (let payload = [(''prompt'', prompt), (''user'', user)];
               payload' = (if extra \<noteq> [] then dict_update payload extra else payload);
               url = rstrip_slash base @ ''/chat''
           in proxy_post e url (JObj payload') tr0))"

text \<open>One call into the local module inside the adapter's \<^verbatim>\<open>try\<close>: the value comes
  back, or the exception is logged and the adapter reports \<open>reason\<close>.\<close>

definition local_call ::
    "string \<Rightarrow> json list \<Rightarrow> (error + json) \<Rightarrow> (json \<Rightarrow> json) \<Rightarrow> string \<Rightarrow> string \<Rightarrow> trace
      \<Rightarrow> json \<times> trace" where
  "local_call name args outcome wrap logmsg reason tr =
     (case outcome of
        Inr out \<Rightarrow> (wrap out, tr @ [LocalCall name args])
      | Inl _ \<Rightarrow> (failed reason, tr @ [LocalCall name args, LogException logmsg]))"

definition ai_call_local_module :: "env \<Rightarrow> json \<Rightarrow> json \<Rightarrow> trace \<Rightarrow> json \<times> trace" where
  "ai_call_local_module e prompt user tr =
     (let tr0 = tr @ [Invoke LocalModule]; n = seen KLocal tr0 in
      case local_ai e of
        None \<Rightarrow> (failed ''no_local_ai'', tr0)
      | Some m \<Rightarrow>
          (case ai_generate m of
             Some f \<Rightarrow> local_call ''ai_generate'' [prompt, user] (f n prompt user) replied
                         ''local_ai call failed'' ''local_ai_failed'' tr0
           | None \<Rightarrow>
          (case generate_reply m of
             Some f \<Rightarrow> local_call ''generate_reply'' [prompt, user] (f n prompt user) replied
                         ''local_ai call failed'' ''local_ai_failed'' tr0
           | None \<Rightarrow>
          (case chat m of
             Some f \<Rightarrow>
               (let arg = JObj [(''prompt'', prompt), (''user'', user)] in
                local_call ''chat'' [arg] (f n arg)
                  (\<lambda>res. case res of
                            JObj kv \<Rightarrow> (case map_of kv ''reply'' of
                                          Some r \<Rightarrow> replied r
                                        | None \<Rightarrow> replied (JStr (py_str e res)))
                          | _ \<Rightarrow> replied (JStr (py_str e res)))
                  ''local_ai call failed'' ''local_ai_failed'' tr0)
           | None \<Rightarrow> (failed ''local_ai_failed'', tr0)))))"

text \<open>The older \<^verbatim>\<open>openai.Completion.create\<close> request, tried from the handler of the first
  one's exception.\<close>

definition openai_legacy :: "env \<Rightarrow> string \<Rightarrow> json \<Rightarrow> trace \<Rightarrow> json \<times> trace" where
  "openai_legacy e model_to_use prompt tr =
     (let tr1 = tr @ [LogException ''openai.chat.completions failed, trying completions endpoint''] in
      case openai_completion e (seen KOpenAI tr1) model_to_use prompt of
        Inr text \<Rightarrow> (replied (JStr (strip text)), tr1 @ [OpenAIRequest ''Completion.create''])
      | Inl _ \<Rightarrow> (failed ''openai_failed_or_not_configured'',
                  tr1 @ [OpenAIRequest ''Completion.create'',
                         LogException ''openai.Completion.create failed'']))"

text \<open>The direct use of the OpenAI package, reached when no local wrapper exists.\<close>

definition openai_direct :: "env \<Rightarrow> json \<Rightarrow> string option \<Rightarrow> trace \<Rightarrow> json \<times> trace" where
  "openai_direct e prompt model tr =
     (if OPENAI_API_KEY e = [] then (failed ''openai_failed_or_not_configured'', tr)
      else if \<not> openai_installed e then
        (failed ''openai_failed_or_not_configured'', tr @ [LogException ''ai_call_openai failed''])
      else
        (let model_to_use =
               (case model of
                  Some m \<Rightarrow> if m \<noteq> [] then m
                            else if NEURA_MODEL e \<noteq> [] then NEURA_MODEL e else ''gpt-4o''
                | None \<Rightarrow> if NEURA_MODEL e \<noteq> [] then NEURA_MODEL e else ''gpt-4o'');
             tr1 = tr @ [OpenAIRequest ''chat.completions.create'']
         in case openai_chat e (seen KOpenAI tr) model_to_use prompt of
              Inl _ \<Rightarrow> openai_legacy e model_to_use prompt tr1
            | Inr (RespChoices (Inr content)) \<Rightarrow> (replied (JStr (strip content)), tr1)
            | Inr (RespChoices (Inl _)) \<Rightarrow> openai_legacy e model_to_use prompt tr1
            | Inr (RespDict (Inr content)) \<Rightarrow> (replied content, tr1)
            | Inr (RespDict (Inl _)) \<Rightarrow> openai_legacy e model_to_use prompt tr1
            | Inr RespOther \<Rightarrow> (failed ''openai_failed_or_not_configured'', tr1)))"

definition ai_call_openai :: "env \<Rightarrow> json \<Rightarrow> json \<Rightarrow> string option \<Rightarrow> trace \<Rightarrow> json \<times> trace" where
  "ai_call_openai e prompt user model tr =
     (let tr0 = tr @ [Invoke Provider]; n = seen KLocal tr0 in
      case local_ai e of
        None \<Rightarrow> openai_direct e prompt model tr0
      | Some m \<Rightarrow>
          (case ai_generate_openai m of
             Some f \<Rightarrow> local_call ''ai_generate_openai'' [prompt, user] (f n prompt user) replied
                         ''ai_call_openai failed'' ''openai_failed_or_not_configured'' tr0
           | None \<Rightarrow>
          (case openai_generate m of
             Some f \<Rightarrow> local_call ''openai_generate'' [prompt, user] (f n prompt user) replied
                         ''ai_call_openai failed'' ''openai_failed_or_not_configured'' tr0
           | None \<Rightarrow> openai_direct e prompt model tr0)))"

section \<open>Fallback responder\<close>

definition greeting :: string where
  "greeting = ''Hello '' @ em_dash @ '' I'' @ [CHR 0x27] @ ''m NeuraAI Hyperluxe. Try asking ''
      @ [CHR 0x27] @ ''recommend a book'' @ [CHR 0x27] @ '' or '' @ [CHR 0x27] @ ''play a game''
      @ [CHR 0x27] @ ''.''"

definition health_text :: string where
  "health_text = ''I can help with basic health advice. Use /api/health/check with symptoms.''"

definition crypto_text :: string where
  "crypto_text = ''Connect a crypto insights module to get live market advice.''"

definition default_text :: string where
  "default_text = ''Interesting '' @ em_dash @ '' tell me more.''"

text \<open>\<open>simple_fallback_reply\<close>. A prompt that is not a string has no \<^verbatim>\<open>lower\<close>: the call
  raises. The time branch reads the clock; the crypto branch asks the local module for
  \<^verbatim>\<open>crypto_summary()\<close> when it has one and falls back to the canned text when that raises.\<close>

definition simple_fallback_reply :: "env \<Rightarrow> json \<Rightarrow> trace \<Rightarrow> (error + json) \<times> trace" where
  "simple_fallback_reply e prompt tr =
     (let tr0 = tr @ [FallbackCall] in
      case prompt of
        JStr s \<Rightarrow>
          (let p = lower s in
           if contains p ''hello'' \<or> strip p \<in> set [''hi'', ''hey'']
           then (Inr (JStr greeting), tr0)
           else if contains p ''time''
           then (Inr (JStr (''Server time: '' @ utcnow e (seen KClock tr0))), tr0 @ [ClockRead])
           else if contains p ''health''
           then (Inr (JStr health_text), tr0)
           else if contains p ''crypto''
           then (case local_ai e of
                   None \<Rightarrow> (Inr (JStr crypto_text), tr0)
                 | Some m \<Rightarrow>
                     (case crypto_summary m of
                        None \<Rightarrow> (Inr (JStr crypto_text), tr0)
                      | Some f \<Rightarrow>
                          (case f (seen KLocal tr0) of
                             Inr out \<Rightarrow> (Inr out, tr0 @ [LocalCall ''crypto_summary'' []])
                           | Inl _ \<Rightarrow> (Inr (JStr crypto_text),
                                        tr0 @ [LocalCall ''crypto_summary'' []]))))
           else (Inr (JStr default_text), tr0))
      | _ \<Rightarrow> (Inl AttributeError, tr0))"

section \<open>Reply orchestrator\<close>

text \<open>The pattern \<^verbatim>\<open>res = adapter(...); if res.get("ok"): return res\<close>, followed by the
  rest of the function. \<^verbatim>\<open>res.get\<close> raises when \<open>res\<close> is not a dictionary.\<close>

definition return_if_ok ::
    "json \<times> trace \<Rightarrow> (trace \<Rightarrow> (error + json) \<times> trace) \<Rightarrow> (error + json) \<times> trace" where
  "return_if_ok call rest =
     (case call of (res, tr1) \<Rightarrow>
        (case py_get res ''ok'' JNull of
           Inl err \<Rightarrow> (Inl err, tr1)
         | Inr ok \<Rightarrow> if truthy ok then (Inr res, tr1) else rest tr1))"

text \<open>Step 5 of \<open>generate_ai_reply\<close>:
  \<^verbatim>\<open>fallback = simple_fallback_reply(prompt); return {"ok": True, "reply": fallback}\<close>.\<close>

definition fallback_step :: "env \<Rightarrow> json \<Rightarrow> trace \<Rightarrow> (error + json) \<times> trace" where
  "fallback_step e prompt t =
     (case simple_fallback_reply e prompt t of
        (Inl err, t') \<Rightarrow> (Inl err, t')
      | (Inr fallback, t') \<Rightarrow> (Inr (replied fallback), t'))"

text \<open>\<open>generate_ai_reply\<close>, from its last numbered step to its first: each of \<open>step4\<close>,
  \<open>step3\<close>, \<open>step2\<close> is the function body from that comment of the source to the end.\<close>

definition step4 :: "env \<Rightarrow> json \<Rightarrow> json \<Rightarrow> json \<Rightarrow> trace \<Rightarrow> (error + json) \<times> trace" where
  "step4 e prompt user prefer t =
     (if configured (AI_SERVICE_URL e) \<noteq> None \<and> prefer = JStr ''auto''
      then return_if_ok (ai_call_microservice e prompt user [] t) (fallback_step e prompt)
      else fallback_step e prompt t)"

definition step3 :: "env \<Rightarrow> json \<Rightarrow> json \<Rightarrow> json \<Rightarrow> trace \<Rightarrow> (error + json) \<times> trace" where
  "step3 e prompt user prefer t =
     return_if_ok (ai_call_openai e prompt user None t) (step4 e prompt user prefer)"

definition step2 :: "env \<Rightarrow> json \<Rightarrow> json \<Rightarrow> json \<Rightarrow> trace \<Rightarrow> (error + json) \<times> trace" where
  "step2 e prompt user prefer t =
     return_if_ok (ai_call_local_module e prompt user t) (step3 e prompt user prefer)"

definition generate_ai_reply ::
    "env \<Rightarrow> json \<Rightarrow> json \<Rightarrow> json \<Rightarrow> trace \<Rightarrow> (error + json) \<times> trace" where
  "generate_ai_reply e prompt user prefer tr =
     (if configured (AI_SERVICE_URL e) \<noteq> None
         \<and> prefer \<in> set [JStr ''microservice'', JStr ''auto'']
      then return_if_ok (ai_call_microservice e prompt user [] tr) (step2 e prompt user prefer)
      else step2 e prompt user prefer tr)"

section \<open>Chat request handler\<close>

text \<open>A handler answers with a status code and a JSON body, or an exception escapes it
  (which the web framework turns into a 500 response).\<close>

type_synonym response = "error + nat \<times> json"

text \<open>The \<^verbatim>\<open>try\<close> block that saves the \<^verbatim>\<open>ChatLog\<close> row: one transaction, or one logged
  exception.\<close>

definition save_chat_log :: "env \<Rightarrow> json \<Rightarrow> json \<Rightarrow> json \<Rightarrow> rat \<Rightarrow> trace \<Rightarrow> trace" where
  "save_chat_log e user message reply latency tr =
     (if db_commit_ok e (seen KDb tr) then tr @ [ChatLogInsert user message reply latency]
      else tr @ [ChatLogInsert user message reply latency, LogException ''Failed to save chat log''])"

text \<open>The \<^verbatim>\<open>if voice:\<close> block: the audio reference starts as \<^verbatim>\<open>None\<close>, the voice service
  is asked when \<^verbatim>\<open>VOICE_SERVICE_URL\<close> is set, else the local voice module when it has
  \<^verbatim>\<open>speak_text\<close>; an exception in either is logged. The caller then stores the reference
  under \<^verbatim>\<open>out["audio"]\<close>.\<close>

definition text_to_speech ::
    "env \<Rightarrow> (string \<times> json) list \<Rightarrow> json \<Rightarrow> trace \<Rightarrow> json \<times> trace" where
  "text_to_speech e body reply tr =
     (let language = dget body ''language'' (JStr ''en'');
          mood = dget body ''mood'' (JStr ''cheerful'');
          tts_payload = JObj [(''text'', reply), (''language'', language), (''mood'', mood)]
      in case configured (VOICE_SERVICE_URL e) of
           Some base \<Rightarrow>
             (case proxy_post e (rstrip_slash base @ ''/speak'') tts_payload tr of (r, tr1) \<Rightarrow>
                (case py_get r ''audio'' JNull of
                   Inr audio \<Rightarrow> (audio, tr1)
                 | Inl _ \<Rightarrow> (JNull, tr1 @ [LogException ''voice service error''])))
         | None \<Rightarrow>
             (case local_voice_speak_text e of
                Some f \<Rightarrow>
                  (case f (seen KLocal tr) reply language mood of
                     Inr audio \<Rightarrow> (audio, tr @ [LocalCall ''speak_text'' [reply, language, mood]])
                   | Inl _ \<Rightarrow> (JNull, tr @ [LocalCall ''speak_text'' [reply, language, mood],
                                             LogException ''local tts error'']))
              | None \<Rightarrow> (JNull, tr)))"

definition empty_message :: response where
  "empty_message = Inr (400, JObj [(''ok'', JBool False), (''error'', JStr ''empty_message'')])"

definition no_reply :: json where
  "no_reply = JStr (''Sorry '' @ em_dash @ '' no reply available.'')"

text \<open>\<open>chat_endpoint\<close>. The argument is \<^verbatim>\<open>request.get_json(silent=True)\<close>: \<open>None\<close> when the
  request has no JSON body that parses. \<^verbatim>\<open>body.get\<close> raises when the body is a truthy value
  that is not an object.\<close>

definition chat_endpoint :: "env \<Rightarrow> json option \<Rightarrow> trace \<Rightarrow> response \<times> trace" where
  "chat_endpoint e request_json tr =
     (case (case request_json of None \<Rightarrow> JObj [] | Some j \<Rightarrow> py_or j (JObj [])) of
        JObj body \<Rightarrow>
          (let message = py_or (py_or (dget body ''message'' JNull) (dget body ''prompt'' JNull))
                           (JStr []);
               user = dget body ''user'' (JStr ''guest'');
               voice = truthy (dget body ''voice'' (JBool False));
               prefer = dget body ''prefer'' (JStr ''auto'')
           in if \<not> truthy message then (empty_message, tr)
              else
                (let start = clock e (seen KClock tr) in
                 case generate_ai_reply e message user prefer (tr @ [ClockRead]) of
                   (Inl err, tr1) \<Rightarrow> (Inl err, tr1)
                 | (Inr res, tr1) \<Rightarrow>
                     (let latency = latency_of e start (clock e (seen KClock tr1));
                          tr2 = tr1 @ [ClockRead]
                      in case py_get res ''reply'' no_reply of
                           Inl err \<Rightarrow> (Inl err, tr2)
                         | Inr reply \<Rightarrow>
                             (let tr3 = save_chat_log e user message reply latency tr2 in
                              case append_event e ''ai_query''
                                     (JObj [(''user'', user), (''prompt'', message),
                                            (''latency'', JNum latency)]) tr3 of
                                (Inl err, tr4) \<Rightarrow> (Inl err, tr4)
                              | (Inr _, tr4) \<Rightarrow>
                                  (let out = [(''ok'', JBool True), (''reply'', reply),
                                              (''latency_s'', JNum latency)]
                                   in if voice
                                      then (case text_to_speech e body reply tr4 of
                                              (audio_url, tr5) \<Rightarrow>
                                                (Inr (200, JObj (dict_set out ''audio'' audio_url)), tr5))
                                      else (Inr (200, JObj out), tr4))))))
      | _ \<Rightarrow> (Inl AttributeError, tr))"

section \<open>Admin guard\<close>

text \<open>What \<open>require_admin\<close> reads of the request: the \<^verbatim>\<open>Authorization\<close> header and the
  \<^verbatim>\<open>admin_token\<close> query parameter, each \<open>None\<close> when absent.\<close>

record request =
  authorization :: "string option"
  admin_token :: "string option"

definition unauthorized :: response where
  "unauthorized = Inr (401, JObj [(''ok'', JBool False), (''error'', JStr ''unauthorized'')])"

text \<open>The token a request presents: the header if it is a non-empty string, else the query
  parameter, else the empty string; a leading \<^verbatim>\<open>"Bearer "\<close> is cut off
  (\<^verbatim>\<open>token.split(" ", 1)[1]\<close> is what follows the first space, the seventh character).\<close>

definition presented_token :: "request \<Rightarrow> string" where
  "presented_token req =
     (let header = (case authorization req of None \<Rightarrow> [] | Some h \<Rightarrow> h);
          token = (if header \<noteq> [] then header
                   else (case admin_token req of None \<Rightarrow> [] | Some a \<Rightarrow> a))
      in if startswith token ''Bearer '' then drop 7 token else token)"

text \<open>\<open>require_admin e f\<close> is the wrapper around the handler \<open>f\<close>.\<close>

definition require_admin ::
    "env \<Rightarrow> (trace \<Rightarrow> response \<times> trace) \<Rightarrow> request \<Rightarrow> trace \<Rightarrow> response \<times> trace" where
  "require_admin e f req tr =
     (let token = presented_token req in
      if NEURA_ADMIN_TOKEN e = []
      then f (tr @ [LogWarning (''NEURA_ADMIN_TOKEN not set '' @ em_dash
                                 @ '' admin endpoints are open (dev).'')])
      else if token \<noteq> NEURA_ADMIN_TOKEN e then (unauthorized, tr)
      else f tr)"

section \<open>Auxiliary notions and concrete worlds\<close>

text \<open>A lowercased prompt consults the world when \<open>simple_fallback_reply\<close> sends it to the
  time branch or to the crypto branch; every other prompt gets a fixed text.\<close>

definition consults_world :: "string \<Rightarrow> bool" where
  "consults_world p \<longleftrightarrow>
     \<not> (contains p ''hello'' \<or> strip p \<in> set [''hi'', ''hey''])
     \<and> (contains p ''time'' \<or> (\<not> contains p ''health'' \<and> contains p ''crypto''))"

text \<open>The deployment with nothing configured: no service URL, no API key, no local module,
  a network that refuses every connection. Its clock advances by a whole second with
  every reading; on whole seconds the floating-point subtraction and rounding are exact.\<close>

definition bare_env :: env where
  "bare_env = \<lparr>NEURA_ADMIN_TOKEN = [], OPENAI_API_KEY = [], NEURA_MODEL = ''gpt-5-mini'',
     AI_SERVICE_URL = None, VOICE_SERVICE_URL = None, local_ai = None,
     local_voice_speak_text = None,
     http_post = (\<lambda>n url payload. Inl ''connection refused''),
     openai_installed = False,
     openai_chat = (\<lambda>n m p. Inl (CollaboratorError ''unreachable'')),
     openai_completion = (\<lambda>n m p. Inl (CollaboratorError ''unreachable'')),
     clock = (\<lambda>n. of_nat n),
     utcnow = (\<lambda>n. if n = 0 then ''2026-01-01 00:00:00 UTC'' else ''2026-01-01 00:00:01 UTC''),
     file_write_ok = (\<lambda>n. True), db_commit_ok = (\<lambda>n. True), py_str = (\<lambda>j. []),
     latency_of = (\<lambda>start now. now - start)\<rparr>"

text \<open>The same deployment with a local module that only has \<^verbatim>\<open>crypto_summary\<close>.\<close>

definition summary_module :: local_ai_module where
  "summary_module = \<lparr>ai_generate = None, generate_reply = None, chat = None,
     ai_generate_openai = None, openai_generate = None,
     crypto_summary = Some (\<lambda>n. Inr (JStr ''BTC up''))\<rparr>"

definition summary_env :: env where
  "summary_env = bare_env\<lparr>local_ai := Some summary_module\<rparr>"

text \<open>The same deployment with an admin token set, and a handler to put behind the guard.\<close>

definition token_env :: env where
  "token_env = bare_env\<lparr>NEURA_ADMIN_TOKEN := ''s3cret''\<rparr>"

definition ping :: "trace \<Rightarrow> response \<times> trace" where
  "ping tr = (Inr (200, JObj [(''ok'', JBool True)]), tr)"

text \<open>A world in which no append to the event file goes through.\<close>

definition disk_full_env :: env where
  "disk_full_env = bare_env\<lparr>file_write_ok := (\<lambda>n. False)\<rparr>"

text \<open>A world with a voice service that answers every request with an audio reference.\<close>

definition tts_env :: env where
  "tts_env = bare_env\<lparr>VOICE_SERVICE_URL := Some ''http://voice/'',
     http_post := (\<lambda>n url payload. Inr (JObj [(''audio'', JStr ''/audio/1.mp3'')]))\<rparr>"

text \<open>An adapter result succeeds when \<^verbatim>\<open>res.get("ok")\<close> is truthy and fails when \<open>res\<close> is a
  dictionary whose \<^verbatim>\<open>ok\<close> is missing or falsy; a result that is no dictionary does neither
  (\<^verbatim>\<open>res.get\<close> raises).\<close>

definition succeeds :: "json \<Rightarrow> bool" where
  "succeeds res = (case py_get res ''ok'' JNull of Inr ok \<Rightarrow> truthy ok | Inl _ \<Rightarrow> False)"

definition fails :: "json \<Rightarrow> bool" where
  "fails res = (case py_get res ''ok'' JNull of Inr ok \<Rightarrow> \<not> truthy ok | Inl _ \<Rightarrow> False)"

fun is_object :: "json \<Rightarrow> bool" where
  "is_object (JObj kv) = True"
| "is_object _ = False"

text \<open>Every body that the network hands to \<open>proxy_post\<close> is a JSON object, as the return
  annotation \<^verbatim>\<open>-> dict\<close> of \<open>proxy_post\<close> has it.\<close>

definition answers_objects :: "env \<Rightarrow> bool" where
  "answers_objects e \<longleftrightarrow> (\<forall>n url payload j. http_post e n url payload = Inr j \<longrightarrow> is_object j)"

text \<open>How often an adapter has been entered.\<close>

definition invoked :: "adapter \<Rightarrow> trace \<Rightarrow> nat" where
  "invoked a tr = length (filter (\<lambda>ev. ev = Invoke a) tr)"

text \<open>Worlds with the AI microservice configured: one that answers every request with a
  reply, one whose first request times out and whose later requests are answered, and one
  that answers with a JSON array.\<close>

definition ms_reply :: json where
  "ms_reply = JObj [(''ok'', JBool True), (''reply'', JStr ''from the microservice'')]"

definition ms_env :: env where
  "ms_env = bare_env\<lparr>AI_SERVICE_URL := Some ''http://ai/'',
     http_post := (\<lambda>n url payload. Inr ms_reply)\<rparr>"

definition flaky_env :: env where
  "flaky_env = bare_env\<lparr>AI_SERVICE_URL := Some ''http://ai/'',
     http_post := (\<lambda>n url payload. if n = 0 then Inl ''timed out'' else Inr ms_reply)\<rparr>"

definition array_env :: env where
  "array_env = bare_env\<lparr>AI_SERVICE_URL := Some ''http://ai/'',
     http_post := (\<lambda>n url payload. Inr (JArr []))\<rparr>"

text \<open>A world whose voice service is configured and refuses every connection.\<close>

definition tts_down_env :: env where
  "tts_down_env = bare_env\<lparr>VOICE_SERVICE_URL := Some ''http://voice/''\<rparr>"

text \<open>The events that record something: a line of the event file, an \<^verbatim>\<open>Event\<close> row, a
  \<^verbatim>\<open>ChatLog\<close> row.\<close>

fun persists :: "effect \<Rightarrow> bool" where
  "persists (FileAppend _) = True"
| "persists (EventInsert _ _) = True"
| "persists (ChatLogInsert _ _ _ _) = True"
| "persists _ = False"

section \<open>The substring test\<close>

lemma startswith_iff: "startswith s t \<longleftrightarrow> (\<exists>b. s = t @ b)"
  by (induction s t rule: startswith.induct) auto

text \<open>\<open>contains s t\<close> is Python's \<^verbatim>\<open>t in s\<close>: \<open>t\<close> occurs somewhere inside \<open>s\<close>.\<close>

lemma contains_iff: "contains s t \<longleftrightarrow> (\<exists>a b. s = a @ t @ b)"
proof (induction s)
  case Nil
  then show ?case by auto
next
  case (Cons x xs)
  show ?case
  proof
    assume "contains (x # xs) t"
    then consider "startswith (x # xs) t" | "contains xs t" by auto
    then show "\<exists>a b. x # xs = a @ t @ b"
    proof cases
      case 1
      then obtain b where "x # xs = t @ b" using startswith_iff by blast
      then have "x # xs = [] @ t @ b" by simp
      then show ?thesis by blast
    next
      case 2
      then obtain a b where "xs = a @ t @ b" using Cons.IH by blast
      then have "x # xs = (x # a) @ t @ b" by simp
      then show ?thesis by blast
    qed
  next
    assume "\<exists>a b. x # xs = a @ t @ b"
    then obtain a b where ab: "x # xs = a @ t @ b" by blast
    show "contains (x # xs) t"
    proof (cases a)
      case Nil
      with ab have "startswith (x # xs) t" using startswith_iff by auto
      then show ?thesis by simp
    next
      case (Cons y ys)
      with ab have "xs = ys @ t @ b" by simp
      then have "contains xs t" using Cons.IH by blast
      then show ?thesis by simp
    qed
  qed
qed

section \<open>Fallback responder: what the reply depends on\<close>

text \<open>
  Claim C5, as the code has it. The reply of \<open>simple_fallback_reply\<close> is a function of the
  lowercased prompt, the clock and the local module: in one world at one moment, two
  prompts with the same lowercased text get the same reply. When the lowercased prompt
  selects the greeting, the health or the default branch, the reply is the same in every
  world and at every moment, and the call touches nothing outside (the trace grows by
  the entry marker only).
\<close>

theorem simple_fallback_reply_dependence:
  "lower s1 = lower s2 \<Longrightarrow>
     fst (simple_fallback_reply e (JStr s1) tr) = fst (simple_fallback_reply e (JStr s2) tr)
     \<and> (\<not> consults_world (lower s1) \<longrightarrow>
          simple_fallback_reply e' (JStr s2) tr'
            = (fst (simple_fallback_reply e (JStr s1) tr), tr' @ [FallbackCall]))"
  by (auto simp: simple_fallback_reply_def Let_def consults_world_def)

theorem simple_fallback_reply_dependence_witness:
  "lower ''HEALTH tips'' = lower ''health TIPS'' \<and> \<not> consults_world (lower ''HEALTH tips'')
   \<and> simple_fallback_reply bare_env (JStr ''health TIPS'') [ClockRead]
       = (Inr (JStr health_text), [ClockRead, FallbackCall])"
  using simple_fallback_reply_dependence
          [of "''HEALTH tips''" "''health TIPS''" bare_env "[]" bare_env "[ClockRead]"]
  by (simp add: consults_world_def simple_fallback_reply_def lower_def lower_char_def
        strip_def is_space_def is_space2_def is_space3_def)

text \<open>Two runs on the prompt \<^verbatim>\<open>time\<close>, the second right after the first, while the clock
  moves on by a second: the replies differ.\<close>

theorem two_runs_differ_counterexample:
  "fst (simple_fallback_reply bare_env (JStr ''time'') [])
     \<noteq> fst (simple_fallback_reply bare_env (JStr ''time'')
              (snd (simple_fallback_reply bare_env (JStr ''time'') [])))"
  by (simp add: simple_fallback_reply_def lower_def lower_char_def strip_def is_space_def is_space2_def is_space3_def
        bare_env_def seen_def)

section \<open>Fallback responder: the keyword branches\<close>

text \<open>\<open>strip\<close> follows Python on white space beyond ASCII: a no-break space (U+00A0, the bytes
  C2 A0) on either side of \<^verbatim>\<open>hi\<close> is stripped, and the prompt is greeted.\<close>

lemma strip_no_break_space:
  "strip ([CHR 0xC2, CHR 0xA0] @ ''hi'' @ [CHR 0xC2, CHR 0xA0]) = ''hi''"
  by (simp add: strip_def is_space_def is_space2_def is_space3_def)

text \<open>
  Claim C6, as the code has it. With \<open>p\<close> the lowercased prompt, the greeting is selected
  when \<open>p\<close> contains \<^verbatim>\<open>hello\<close> or when \<open>p\<close>, stripped of surrounding white space, is exactly
  \<^verbatim>\<open>hi\<close> or \<^verbatim>\<open>hey\<close>. Otherwise the first of \<^verbatim>\<open>time\<close>, \<^verbatim>\<open>health\<close>, \<^verbatim>\<open>crypto\<close> that \<open>p\<close> contains
  selects the reply: the server time, the health text, or, for \<^verbatim>\<open>crypto\<close>, the summary of
  the local module when the module has \<^verbatim>\<open>crypto_summary\<close> and the call does not raise, and
  the canned crypto text in every other case. A prompt with none of the keywords gets the
  generic acknowledgement. The prompt \<^verbatim>\<open>hello\<close> gets exactly the greeting.
\<close>

theorem simple_fallback_reply_keywords:
  "let p = lower s; r = fst (simple_fallback_reply e (JStr s) tr);
       greets = (contains p ''hello'' \<or> strip p = ''hi'' \<or> strip p = ''hey'')
   in (greets \<longrightarrow> r = Inr (JStr greeting))
    \<and> (\<not> greets \<and> contains p ''time'' \<longrightarrow>
         r = Inr (JStr (''Server time: '' @ utcnow e (seen KClock tr))))
    \<and> (\<not> greets \<and> \<not> contains p ''time'' \<and> contains p ''health'' \<longrightarrow>
         r = Inr (JStr health_text))
    \<and> (\<not> greets \<and> \<not> contains p ''time'' \<and> \<not> contains p ''health'' \<and> contains p ''crypto'' \<longrightarrow>
         r = (case local_ai e of
                None \<Rightarrow> Inr (JStr crypto_text)
              | Some m \<Rightarrow>
                  (case crypto_summary m of
                     None \<Rightarrow> Inr (JStr crypto_text)
                   | Some f \<Rightarrow>
                       (case f (seen KLocal tr) of
                          Inr out \<Rightarrow> Inr out
                        | Inl err \<Rightarrow> Inr (JStr crypto_text)))))
    \<and> (\<not> greets \<and> \<not> contains p ''time'' \<and> \<not> contains p ''health'' \<and> \<not> contains p ''crypto'' \<longrightarrow>
         r = Inr (JStr default_text))
    \<and> fst (simple_fallback_reply e (JStr ''hello'') tr) = Inr (JStr greeting)"
  by (auto simp: simple_fallback_reply_def Let_def seen_def lower_def lower_char_def
           split: option.splits sum.splits)

theorem simple_fallback_reply_keywords_witness:
  "strip (lower '' Hey '') = ''hey''
   \<and> fst (simple_fallback_reply bare_env (JStr '' Hey '') []) = Inr (JStr greeting)
   \<and> \<not> contains (lower ''Crypto?'') ''hello'' \<and> strip (lower ''Crypto?'') \<noteq> ''hi''
   \<and> strip (lower ''Crypto?'') \<noteq> ''hey'' \<and> \<not> contains (lower ''Crypto?'') ''time''
   \<and> \<not> contains (lower ''Crypto?'') ''health'' \<and> contains (lower ''Crypto?'') ''crypto''
   \<and> fst (simple_fallback_reply summary_env (JStr ''Crypto?'') []) = Inr (JStr ''BTC up'')"
  using simple_fallback_reply_keywords [of "'' Hey ''" bare_env "[]"]
        simple_fallback_reply_keywords [of "''Crypto?''" summary_env "[]"]
  by (simp add: Let_def lower_def lower_char_def strip_def is_space_def is_space2_def
        is_space3_def summary_env_def summary_module_def bare_env_def seen_def)

text \<open>The prompt \<^verbatim>\<open>this\<close> contains \<^verbatim>\<open>hi\<close> and gets the generic acknowledgement, not the
  greeting.\<close>

theorem substring_hi_counterexample:
  "contains (lower ''this'') ''hi''
   \<and> fst (simple_fallback_reply bare_env (JStr ''this'') []) = Inr (JStr default_text)
   \<and> default_text \<noteq> greeting"
  by (simp add: simple_fallback_reply_def lower_def lower_char_def strip_def is_space_def
        is_space2_def is_space3_def default_text_def greeting_def)

section \<open>Admin guard\<close>

text \<open>
  Claim C10. When \<^verbatim>\<open>NEURA_ADMIN_TOKEN\<close> is the empty string, \<open>require_admin\<close> logs a warning and
  runs the wrapped handler, whatever \<^verbatim>\<open>Authorization\<close> header or \<^verbatim>\<open>admin_token\<close> parameter
  the request carries. When a non-empty token is configured, a request presenting another
  token gets 401 with \<^verbatim>\<open>{"ok": false, "error": "unauthorized"}\<close> and the handler is not run;
  a request presenting the token gets the handler.
\<close>

theorem require_admin_guard:
  "(NEURA_ADMIN_TOKEN e = [] \<longrightarrow>
      require_admin e f req tr
        = f (tr @ [LogWarning (''NEURA_ADMIN_TOKEN not set '' @ em_dash
                                 @ '' admin endpoints are open (dev).'')]))
   \<and> (NEURA_ADMIN_TOKEN e \<noteq> [] \<and> presented_token req \<noteq> NEURA_ADMIN_TOKEN e \<longrightarrow>
        require_admin e f req tr = (unauthorized, tr))
   \<and> (NEURA_ADMIN_TOKEN e \<noteq> [] \<and> presented_token req = NEURA_ADMIN_TOKEN e \<longrightarrow>
        require_admin e f req tr = f tr)"
  by (simp add: require_admin_def Let_def)

theorem require_admin_guard_witness:
  "NEURA_ADMIN_TOKEN bare_env = []
   \<and> fst (require_admin bare_env ping \<lparr>authorization = Some ''Bearer wrong'', admin_token = None\<rparr> [])
       = Inr (200, JObj [(''ok'', JBool True)])
   \<and> NEURA_ADMIN_TOKEN token_env \<noteq> []
   \<and> presented_token \<lparr>authorization = Some ''Bearer wrong'', admin_token = None\<rparr>
       \<noteq> NEURA_ADMIN_TOKEN token_env
   \<and> require_admin token_env ping \<lparr>authorization = Some ''Bearer wrong'', admin_token = None\<rparr> []
       = (unauthorized, [])
   \<and> presented_token \<lparr>authorization = None, admin_token = Some ''s3cret''\<rparr>
       = NEURA_ADMIN_TOKEN token_env
   \<and> require_admin token_env ping \<lparr>authorization = None, admin_token = Some ''s3cret''\<rparr> []
       = ping []"
  using require_admin_guard [of bare_env ping "\<lparr>authorization = Some ''Bearer wrong'', admin_token = None\<rparr>" "[]"]
        require_admin_guard [of token_env ping "\<lparr>authorization = Some ''Bearer wrong'', admin_token = None\<rparr>" "[]"]
        require_admin_guard [of token_env ping "\<lparr>authorization = None, admin_token = Some ''s3cret''\<rparr>" "[]"]
  by (simp add: bare_env_def token_env_def presented_token_def ping_def)

section \<open>Event recorder\<close>

text \<open>
  Claim C4, as the code has it. For every event type and payload, \<open>append_event\<close> reads the
  clock, attempts the append of the line \<^verbatim>\<open>{type, payload, ts}\<close> to the event file, and only
  then attempts the database insert. A failure of the file append is logged and nothing
  more, exactly like a failure of the database insert: \<open>append_event\<close> returns normally on
  every path, so the caller learns of neither.
\<close>

theorem append_event_file_then_db:
  "append_event e event_type payload tr =
     (Inr (),
      tr @ [ClockRead,
            FileAppend (JObj [(''type'', JStr event_type), (''payload'', payload),
                              (''ts'', JNum (clock e (seen KClock tr)))])]
         @ (if file_write_ok e (seen KFile tr) then []
            else [LogException ''append_event_file failed''])
         @ [EventInsert event_type payload]
         @ (if db_commit_ok e (seen KDb tr) then []
            else [LogException ''append_event_db failed'']))"
  by (simp add: append_event_def append_event_file_def append_event_db_def Let_def seen_def)

theorem append_event_file_then_db_witness:
  "append_event bare_env ''ai_query'' (JObj []) [] =
     (Inr (), [ClockRead,
               FileAppend (JObj [(''type'', JStr ''ai_query''), (''payload'', JObj []), (''ts'', JNum 0)]),
               EventInsert ''ai_query'' (JObj [])])"
  using append_event_file_then_db [of bare_env "''ai_query''" "JObj []" "[]"]
  by (simp add: bare_env_def seen_def)

text \<open>The file append fails and \<open>append_event\<close> returns as if nothing had happened: the
  caller is not informed.\<close>

theorem file_failure_swallowed_counterexample:
  "\<not> file_write_ok disk_full_env (seen KFile [])
   \<and> append_event disk_full_env ''ai_query'' (JObj []) [] =
       (Inr (), [ClockRead,
                 FileAppend (JObj [(''type'', JStr ''ai_query''), (''payload'', JObj []), (''ts'', JNum 0)]),
                 LogException ''append_event_file failed'',
                 EventInsert ''ai_query'' (JObj [])])"
  by (simp add: append_event_def append_event_file_def append_event_db_def Let_def seen_def
        disk_full_env_def bare_env_def)

section \<open>Reply orchestrator: how control passes from step to step\<close>

text \<open>The definitions that a run on a concrete world unfolds.\<close>

lemmas ev = chat_endpoint_def py_or_def Let_def dget_def generate_ai_reply_def step2_def step3_def
  step4_def fallback_step_def return_if_ok_def ai_call_microservice_def ai_call_local_module_def
  ai_call_openai_def openai_direct_def proxy_post_def failed_def replied_def
  simple_fallback_reply_def lower_def lower_char_def strip_def is_space_def is_space2_def
  is_space3_def save_chat_log_def append_event_def append_event_file_def append_event_db_def
  text_to_speech_def seen_def no_reply_def rstrip_slash_def invoked_def succeeds_def fails_def

text \<open>After an adapter call the function returns the adapter's result when it succeeds,
  goes on with the rest when it fails, and raises when the result is no dictionary.\<close>

lemma return_if_ok_fails: "fails (fst c) \<Longrightarrow> return_if_ok c rest = rest (snd c)"
  by (cases c) (simp add: return_if_ok_def fails_def split: sum.splits)

lemma return_if_ok_succeeds: "succeeds (fst c) \<Longrightarrow> return_if_ok c rest = (Inr (fst c), snd c)"
  by (cases c) (simp add: return_if_ok_def succeeds_def split: sum.splits)

lemma return_if_ok_raises:
  "\<not> is_object (fst c) \<Longrightarrow> return_if_ok c rest = (Inl AttributeError, snd c)"
  by (cases c, cases "fst c") (simp_all add: return_if_ok_def)

lemma object_succeeds_or_fails: "is_object r \<Longrightarrow> succeeds r \<or> fails r"
  by (cases r) (simp_all add: succeeds_def fails_def)

lemma return_if_ok_cases:
  "return_if_ok c rest = (Inr (fst c), snd c) \<and> succeeds (fst c)
   \<or> return_if_ok c rest = rest (snd c) \<and> fails (fst c)
   \<or> return_if_ok c rest = (Inl AttributeError, snd c) \<and> \<not> is_object (fst c)"
proof (cases "is_object (fst c)")
  case True
  then consider "succeeds (fst c)" | "fails (fst c)"
    using object_succeeds_or_fails by blast
  then show ?thesis
  proof cases
    case 1
    then show ?thesis by (simp add: return_if_ok_succeeds)
  next
    case 2
    then show ?thesis by (simp add: return_if_ok_fails)
  qed
next
  case False
  then show ?thesis by (simp add: return_if_ok_raises)
qed

lemma succeeds_object: "succeeds r \<Longrightarrow> is_object r"
  by (cases r) (simp_all add: succeeds_def)

lemma replied_object: "is_object (replied out)"
  by (simp add: replied_def)

lemma replied_succeeds: "succeeds (replied out)"
  by (simp add: replied_def succeeds_def dget_def)

lemma failed_object: "is_object (failed reason)"
  by (simp add: failed_def)

lemma failed_not_succeeds: "\<not> succeeds (failed reason)"
  by (simp add: failed_def succeeds_def dget_def)

lemma error_dict_not_succeeds: "\<not> succeeds (JObj [(''ok'', JBool False), (''error'', x)])"
  by (simp add: succeeds_def dget_def)

text \<open>Whatever \<open>generate_ai_reply\<close> returns is a dictionary.\<close>

lemma fallback_step_object: "fallback_step e p t = (Inr r, t') \<Longrightarrow> is_object r"
  by (auto simp: fallback_step_def replied_def split: prod.splits sum.splits)

lemma return_if_ok_object:
  assumes "return_if_ok c rest = (Inr res, t')"
      and "\<And>t r t''. rest t = (Inr r, t'') \<Longrightarrow> is_object r"
  shows "is_object res"
proof -
  consider "return_if_ok c rest = (Inr (fst c), snd c)" "succeeds (fst c)"
    | "return_if_ok c rest = rest (snd c)"
    | "return_if_ok c rest = (Inl AttributeError, snd c)"
    using return_if_ok_cases [of c rest] by blast
  then show ?thesis
  proof cases
    case 1
    with assms(1) have "res = fst c" by simp
    with 1(2) show ?thesis by (simp add: succeeds_object)
  next
    case 2
    with assms(1) have "rest (snd c) = (Inr res, t')" by simp
    then show ?thesis by (rule assms(2))
  next
    case 3
    with assms(1) show ?thesis by simp
  qed
qed

lemma step4_object: "step4 e p u pr t = (Inr r, t') \<Longrightarrow> is_object r"
proof (cases "configured (AI_SERVICE_URL e) \<noteq> None \<and> pr = JStr ''auto''")
  case True
  assume "step4 e p u pr t = (Inr r, t')"
  with True have "return_if_ok (ai_call_microservice e p u [] t) (fallback_step e p) = (Inr r, t')"
    by (simp add: step4_def)
  then show ?thesis by (rule return_if_ok_object) (rule fallback_step_object)
next
  case False
  assume "step4 e p u pr t = (Inr r, t')"
  with False have "fallback_step e p t = (Inr r, t')"
    by (auto simp: step4_def)
  then show ?thesis by (rule fallback_step_object)
qed

lemma step3_object: "step3 e p u pr t = (Inr r, t') \<Longrightarrow> is_object r"
  unfolding step3_def by (erule return_if_ok_object) (rule step4_object)

lemma step2_object: "step2 e p u pr t = (Inr r, t') \<Longrightarrow> is_object r"
  unfolding step2_def by (erule return_if_ok_object) (rule step3_object)

lemma generate_ai_reply_object: "generate_ai_reply e p u pr t = (Inr res, t') \<Longrightarrow> is_object res"
proof (cases "configured (AI_SERVICE_URL e) \<noteq> None
                \<and> pr \<in> set [JStr ''microservice'', JStr ''auto'']")
  case True
  assume "generate_ai_reply e p u pr t = (Inr res, t')"
  with True have "return_if_ok (ai_call_microservice e p u [] t) (step2 e p u pr) = (Inr res, t')"
    by (simp add: generate_ai_reply_def)
  then show ?thesis by (rule return_if_ok_object) (rule step2_object)
next
  case False
  assume "generate_ai_reply e p u pr t = (Inr res, t')"
  with False have "step2 e p u pr t = (Inr res, t')"
    by (auto simp: generate_ai_reply_def)
  then show ?thesis by (rule step2_object)
qed

subsection \<open>How often an adapter is entered\<close>

lemma invoked_append: "invoked a (t @ evs) = invoked a t + invoked a evs"
  by (simp add: invoked_def)

lemma invoked_proxy_post: "invoked a (snd (proxy_post e url payload t)) = invoked a t"
  by (simp add: proxy_post_def invoked_append split: sum.split) (simp add: invoked_def)

lemma invoked_local_call:
  "invoked a (snd (local_call name args outcome wrap logmsg reason t)) = invoked a t"
  by (simp add: local_call_def invoked_append split: sum.split) (simp add: invoked_def)

lemma invoked_microservice:
  "invoked a (snd (ai_call_microservice e p u x t))
     = invoked a t + (if a = Microservice then 1 else 0)"
  by (simp add: ai_call_microservice_def Let_def invoked_proxy_post invoked_append
        split: option.split) (simp add: invoked_def)

lemma invoked_local_module:
  "invoked a (snd (ai_call_local_module e p u t))
     = invoked a t + (if a = LocalModule then 1 else 0)"
  by (simp add: ai_call_local_module_def Let_def invoked_local_call invoked_append
        split: option.split) (simp add: invoked_def)

lemma invoked_openai_legacy: "invoked a (snd (openai_legacy e m p t)) = invoked a t"
  by (simp add: openai_legacy_def Let_def invoked_append split: sum.split) (simp add: invoked_def)

lemma invoked_openai_direct: "invoked a (snd (openai_direct e p m t)) = invoked a t"
  by (simp add: openai_direct_def Let_def invoked_append invoked_openai_legacy
        split: sum.split openai_resp.split option.split) (simp add: invoked_def)

lemma invoked_openai:
  "invoked a (snd (ai_call_openai e p u m t))
     = invoked a t + (if a = Provider then 1 else 0)"
  by (simp add: ai_call_openai_def Let_def invoked_local_call invoked_openai_direct invoked_append
        split: option.split) (simp add: invoked_def)

lemma invoked_fallback: "invoked a (snd (simple_fallback_reply e p t)) = invoked a t"
  by (simp add: simple_fallback_reply_def Let_def invoked_append
        split: json.split option.split sum.split) (simp add: invoked_def)

lemma invoked_fallback_step: "invoked a (snd (fallback_step e p t)) = invoked a t"
proof (cases "simple_fallback_reply e p t")
  case (Pair r t')
  then have "snd (fallback_step e p t) = t'"
    by (simp add: fallback_step_def split: sum.split)
  moreover have "invoked a t' = invoked a t"
    using invoked_fallback [of a e p t] Pair by simp
  ultimately show ?thesis by simp
qed

lemma snd_return_if_ok:
  "snd (return_if_ok c rest) = snd c \<or> snd (return_if_ok c rest) = snd (rest (snd c))"
  by (cases c) (simp add: return_if_ok_def split: sum.split)

text \<open>When the rest of the function enters an adapter as often on every path, so does
  the whole.\<close>

lemma invoked_return_if_ok_same:
  assumes "\<And>t. invoked a (snd (rest t)) = invoked a t"
  shows "invoked a (snd (return_if_ok c rest)) = invoked a (snd c)"
  using snd_return_if_ok [of c rest] assms by auto

lemma invoked_return_if_ok_le:
  assumes "\<And>t. invoked a (snd (rest t)) \<le> invoked a t + k"
  shows "invoked a (snd (return_if_ok c rest)) \<le> invoked a (snd c) + k"
  using snd_return_if_ok [of c rest] assms by auto

lemma invoked_step4_retry:
  "configured (AI_SERVICE_URL e) \<noteq> None \<Longrightarrow>
     invoked Microservice (snd (step4 e p u (JStr ''auto'') t)) = invoked Microservice t + 1"
  by (simp add: step4_def invoked_return_if_ok_same invoked_fallback_step invoked_microservice)

lemma invoked_step4_none:
  "configured (AI_SERVICE_URL e) = None \<or> pr \<noteq> JStr ''auto'' \<Longrightarrow>
     invoked Microservice (snd (step4 e p u pr t)) = invoked Microservice t"
  by (auto simp: step4_def invoked_fallback_step)

lemma invoked_step3_none:
  "configured (AI_SERVICE_URL e) = None \<or> pr \<noteq> JStr ''auto'' \<Longrightarrow>
     invoked Microservice (snd (step3 e p u pr t)) = invoked Microservice t"
  by (simp add: step3_def invoked_return_if_ok_same invoked_step4_none invoked_openai)

lemma invoked_step2_none:
  "configured (AI_SERVICE_URL e) = None \<or> pr \<noteq> JStr ''auto'' \<Longrightarrow>
     invoked Microservice (snd (step2 e p u pr t)) = invoked Microservice t"
  by (simp add: step2_def invoked_return_if_ok_same invoked_step3_none invoked_local_module)

lemma no_second_attempt:
  assumes "pr \<noteq> JStr ''auto''"
  shows "invoked Microservice (snd (generate_ai_reply e p u pr t)) \<le> invoked Microservice t + 1"
proof -
  have rest: "\<And>t. invoked Microservice (snd (step2 e p u pr t)) \<le> invoked Microservice t + 0"
    using assms by (simp add: invoked_step2_none)
  show ?thesis
  proof (cases "configured (AI_SERVICE_URL e) \<noteq> None
                  \<and> pr \<in> set [JStr ''microservice'', JStr ''auto'']")
    case True
    have "invoked Microservice (snd (return_if_ok (ai_call_microservice e p u [] t) (step2 e p u pr)))
            \<le> invoked Microservice (snd (ai_call_microservice e p u [] t)) + 0"
      by (rule invoked_return_if_ok_le) (rule rest)
    with True show ?thesis
      by (simp add: generate_ai_reply_def invoked_microservice)
  next
    case False
    then have "generate_ai_reply e p u pr t = step2 e p u pr t"
      by (auto simp: generate_ai_reply_def)
    with rest [of t] show ?thesis by simp
  qed
qed

lemma not_preferred_not_invoked:
  assumes "pr \<notin> set [JStr ''microservice'', JStr ''auto'']"
  shows "invoked Microservice (snd (generate_ai_reply e p u pr t)) = invoked Microservice t"
proof -
  from assms have "generate_ai_reply e p u pr t = step2 e p u pr t"
    by (auto simp: generate_ai_reply_def)
  moreover from assms have "pr \<noteq> JStr ''auto''" by auto
  ultimately show ?thesis by (simp add: invoked_step2_none)
qed

lemma ai_call_microservice_configured:
  "configured (AI_SERVICE_URL e) = Some base \<Longrightarrow>
     ai_call_microservice e p u [] t =
       proxy_post e (rstrip_slash base @ ''/chat'') (JObj [(''prompt'', p), (''user'', u)])
         (t @ [Invoke Microservice])"
  by (simp add: ai_call_microservice_def Let_def)

lemma seen_post_invoke: "seen KPost (t @ [Invoke a]) = seen KPost t"
  by (simp add: seen_def)

section \<open>Reply orchestrator: precedence of the microservice\<close>

text \<open>
  Claim C2, as the code has it. With the microservice configured and the preference
  \<^verbatim>\<open>microservice\<close> or \<^verbatim>\<open>auto\<close>, \<open>generate_ai_reply\<close> starts by calling the microservice
  adapter; when this first call is answered with a result that succeeds, that result is
  returned verbatim, and neither the local-module adapter nor the provider adapter is
  entered. With any other preference the microservice adapter is not entered at all.
\<close>

theorem microservice_precedence:
  assumes conf: "configured (AI_SERVICE_URL e) = Some base"
      and ok: "http_post e (seen KPost tr) (rstrip_slash base @ ''/chat'')
                 (JObj [(''prompt'', prompt), (''user'', user)]) = Inr res"
      and succ: "succeeds res"
  shows "(prefer = JStr ''microservice'' \<or> prefer = JStr ''auto'' \<longrightarrow>
            generate_ai_reply e prompt user prefer tr =
              (Inr res, tr @ [Invoke Microservice,
                              HttpPost (rstrip_slash base @ ''/chat'')
                                (JObj [(''prompt'', prompt), (''user'', user)])])
            \<and> invoked LocalModule (snd (generate_ai_reply e prompt user prefer tr))
                = invoked LocalModule tr
            \<and> invoked Provider (snd (generate_ai_reply e prompt user prefer tr))
                = invoked Provider tr)
       \<and> (prefer \<noteq> JStr ''microservice'' \<and> prefer \<noteq> JStr ''auto'' \<longrightarrow>
            invoked Microservice (snd (generate_ai_reply e prompt user prefer tr))
              = invoked Microservice tr)"
proof (intro conjI impI)
  assume pref: "prefer = JStr ''microservice'' \<or> prefer = JStr ''auto''"
  let ?url = "rstrip_slash base @ ''/chat''"
  let ?payload = "JObj [(''prompt'', prompt), (''user'', user)]"
  have call: "ai_call_microservice e prompt user [] tr
                = (res, tr @ [Invoke Microservice, HttpPost ?url ?payload])"
    using ok by (simp add: ai_call_microservice_configured [OF conf] proxy_post_def seen_post_invoke)
  from conf pref have "generate_ai_reply e prompt user prefer tr
      = return_if_ok (ai_call_microservice e prompt user [] tr) (step2 e prompt user prefer)"
    by (auto simp: generate_ai_reply_def)
  also have "\<dots> = (Inr res, tr @ [Invoke Microservice, HttpPost ?url ?payload])"
    using return_if_ok_succeeds [of "ai_call_microservice e prompt user [] tr"] succ call by simp
  finally show run: "generate_ai_reply e prompt user prefer tr
                  = (Inr res, tr @ [Invoke Microservice, HttpPost ?url ?payload])" .
  show "invoked LocalModule (snd (generate_ai_reply e prompt user prefer tr)) = invoked LocalModule tr"
    by (simp add: run invoked_def)
  show "invoked Provider (snd (generate_ai_reply e prompt user prefer tr)) = invoked Provider tr"
    by (simp add: run invoked_def)
next
  assume "prefer \<noteq> JStr ''microservice'' \<and> prefer \<noteq> JStr ''auto''"
  then have "prefer \<notin> set [JStr ''microservice'', JStr ''auto'']" by simp
  then show "invoked Microservice (snd (generate_ai_reply e prompt user prefer tr))
               = invoked Microservice tr"
    by (rule not_preferred_not_invoked)
qed

theorem microservice_precedence_witness:
  "configured (AI_SERVICE_URL ms_env) = Some ''http://ai/''
   \<and> http_post ms_env (seen KPost []) (rstrip_slash ''http://ai/'' @ ''/chat'')
         (JObj [(''prompt'', JStr ''hello''), (''user'', JStr ''u1'')]) = Inr ms_reply
   \<and> succeeds ms_reply
   \<and> generate_ai_reply ms_env (JStr ''hello'') (JStr ''u1'') (JStr ''auto'') []
       = (Inr ms_reply,
          [Invoke Microservice,
           HttpPost ''http://ai/chat'' (JObj [(''prompt'', JStr ''hello''), (''user'', JStr ''u1'')])])
   \<and> invoked Microservice
         (snd (generate_ai_reply ms_env (JStr ''hello'') (JStr ''u1'') (JStr ''local'') [])) = 0"
proof -
  have h1: "configured (AI_SERVICE_URL ms_env) = Some ''http://ai/''"
    by (simp add: ms_env_def bare_env_def)
  have h2: "http_post ms_env (seen KPost []) (rstrip_slash ''http://ai/'' @ ''/chat'')
              (JObj [(''prompt'', JStr ''hello''), (''user'', JStr ''u1'')]) = Inr ms_reply"
    by (simp add: ms_env_def bare_env_def)
  have h3: "succeeds ms_reply"
    by (simp add: ms_reply_def succeeds_def dget_def)
  from microservice_precedence [OF h1 h2 h3, of "JStr ''auto''"]
  have "generate_ai_reply ms_env (JStr ''hello'') (JStr ''u1'') (JStr ''auto'') []
       = (Inr ms_reply,
          [Invoke Microservice,
           HttpPost ''http://ai/chat'' (JObj [(''prompt'', JStr ''hello''), (''user'', JStr ''u1'')])])"
    by (simp add: rstrip_slash_def)
  moreover from microservice_precedence [OF h1 h2 h3, of "JStr ''local''"]
  have "invoked Microservice
         (snd (generate_ai_reply ms_env (JStr ''hello'') (JStr ''u1'') (JStr ''local'') [])) = 0"
    by (simp add: invoked_def)
  ultimately show ?thesis using h1 h2 h3 by simp
qed

text \<open>Preference \<^verbatim>\<open>auto\<close>, the first call times out and the retry of step 4 is answered: the
  microservice's result is returned verbatim, but only after the local-module adapter
  and the provider adapter have both been entered.\<close>

theorem retry_after_other_adapters_counterexample:
  "configured (AI_SERVICE_URL flaky_env) = Some ''http://ai/''
   \<and> succeeds ms_reply
   \<and> generate_ai_reply flaky_env (JStr ''hello'') (JStr ''u1'') (JStr ''auto'') []
       = (Inr ms_reply,
          [Invoke Microservice,
           HttpPost ''http://ai/chat'' (JObj [(''prompt'', JStr ''hello''), (''user'', JStr ''u1'')]),
           LogException ''proxy_post failed'',
           Invoke LocalModule, Invoke Provider,
           Invoke Microservice,
           HttpPost ''http://ai/chat'' (JObj [(''prompt'', JStr ''hello''), (''user'', JStr ''u1'')])])
   \<and> invoked LocalModule (snd (generate_ai_reply flaky_env (JStr ''hello'') (JStr ''u1'') (JStr ''auto'') [])) = 1
   \<and> invoked Provider (snd (generate_ai_reply flaky_env (JStr ''hello'') (JStr ''u1'') (JStr ''auto'') [])) = 1"
  by (simp add: ev flaky_env_def bare_env_def ms_reply_def)

section \<open>Reply orchestrator: the retry under \<^verbatim>\<open>auto\<close>\<close>

lemma after_three_failures:
  assumes "first = (configured (AI_SERVICE_URL e) \<noteq> None
                     \<and> pr \<in> set [JStr ''microservice'', JStr ''auto''])"
      and "t1 = (if first then snd (ai_call_microservice e p u [] tr) else tr)"
      and "t2 = snd (ai_call_local_module e p u t1)"
      and "t3 = snd (ai_call_openai e p u None t2)"
      and "first \<longrightarrow> fails (fst (ai_call_microservice e p u [] tr))"
      and "fails (fst (ai_call_local_module e p u t1))"
      and "fails (fst (ai_call_openai e p u None t2))"
  shows "generate_ai_reply e p u pr tr = step4 e p u pr t3"
    and "invoked Microservice t3 = invoked Microservice tr + (if first then 1 else 0)"
proof -
  have "generate_ai_reply e p u pr tr = step2 e p u pr t1"
  proof (cases first)
    case True
    with assms(1) have "generate_ai_reply e p u pr tr
        = return_if_ok (ai_call_microservice e p u [] tr) (step2 e p u pr)"
      by (simp add: generate_ai_reply_def)
    with True assms(2,5) show ?thesis by (simp add: return_if_ok_fails)
  next
    case False
    with assms(1) have "generate_ai_reply e p u pr tr = step2 e p u pr tr"
      by (auto simp: generate_ai_reply_def)
    with False assms(2) show ?thesis by simp
  qed
  also have "\<dots> = step3 e p u pr t2"
    using assms(3,6) by (simp add: step2_def return_if_ok_fails)
  also have "\<dots> = step4 e p u pr t3"
    using assms(4,7) by (simp add: step3_def return_if_ok_fails)
  finally show "generate_ai_reply e p u pr tr = step4 e p u pr t3" .
  show "invoked Microservice t3 = invoked Microservice tr + (if first then 1 else 0)"
    using assms(2,3,4) by (simp add: invoked_openai invoked_local_module invoked_microservice)
qed

text \<open>
  Claim C3. Suppose the adapters of steps 1 to 3 all fail: the first microservice attempt
  (made when the microservice is configured and the preference is \<^verbatim>\<open>microservice\<close> or
  \<^verbatim>\<open>auto\<close>), the local-module adapter and the provider adapter. With the microservice
  configured and the preference exactly \<^verbatim>\<open>auto\<close>, what is left of the run is one more call
  of the microservice adapter, whose result is returned when it succeeds and followed by
  the fallback responder when it fails; the microservice adapter has then been entered
  exactly twice. In every other case what is left is the fallback responder alone, and
  the microservice adapter has been entered once, in step 1, or not at all. Whatever the
  adapters answer, a preference other than \<^verbatim>\<open>auto\<close> never leads to a second attempt.
\<close>

theorem auto_retries_microservice_once:
  "let first = (configured (AI_SERVICE_URL e) \<noteq> None
                 \<and> prefer \<in> set [JStr ''microservice'', JStr ''auto'']);
       t1 = (if first then snd (ai_call_microservice e p u [] tr) else tr);
       t2 = snd (ai_call_local_module e p u t1);
       t3 = snd (ai_call_openai e p u None t2);
       run = generate_ai_reply e p u prefer tr
   in ((first \<longrightarrow> fails (fst (ai_call_microservice e p u [] tr)))
        \<and> fails (fst (ai_call_local_module e p u t1))
        \<and> fails (fst (ai_call_openai e p u None t2))
        \<longrightarrow> (if configured (AI_SERVICE_URL e) \<noteq> None \<and> prefer = JStr ''auto''
             then run = return_if_ok (ai_call_microservice e p u [] t3) (fallback_step e p)
                  \<and> invoked Microservice (snd run) = invoked Microservice tr + 2
             else run = fallback_step e p t3
                  \<and> invoked Microservice (snd run)
                      = invoked Microservice tr + (if first then 1 else 0)))
      \<and> (prefer \<noteq> JStr ''auto'' \<longrightarrow>
            invoked Microservice (snd run) \<le> invoked Microservice tr + 1)"
proof -
  define first where "first = (configured (AI_SERVICE_URL e) \<noteq> None
                 \<and> prefer \<in> set [JStr ''microservice'', JStr ''auto''])"
  define t1 where "t1 = (if first then snd (ai_call_microservice e p u [] tr) else tr)"
  define t2 where "t2 = snd (ai_call_local_module e p u t1)"
  define t3 where "t3 = snd (ai_call_openai e p u None t2)"
  have main: "(if configured (AI_SERVICE_URL e) \<noteq> None \<and> prefer = JStr ''auto''
             then generate_ai_reply e p u prefer tr
                    = return_if_ok (ai_call_microservice e p u [] t3) (fallback_step e p)
                  \<and> invoked Microservice (snd (generate_ai_reply e p u prefer tr))
                      = invoked Microservice tr + 2
             else generate_ai_reply e p u prefer tr = fallback_step e p t3
                  \<and> invoked Microservice (snd (generate_ai_reply e p u prefer tr))
                      = invoked Microservice tr + (if first then 1 else 0))"
    if f1: "first \<longrightarrow> fails (fst (ai_call_microservice e p u [] tr))"
    and f2: "fails (fst (ai_call_local_module e p u t1))"
    and f3: "fails (fst (ai_call_openai e p u None t2))"
  proof -
    note a = after_three_failures [OF first_def t1_def t2_def t3_def f1 f2 f3]
    show ?thesis
    proof (cases "configured (AI_SERVICE_URL e) \<noteq> None \<and> prefer = JStr ''auto''")
      case True
      then have first: first by (simp add: first_def)
      from True have s4: "step4 e p u prefer t3
          = return_if_ok (ai_call_microservice e p u [] t3) (fallback_step e p)"
        by (auto simp: step4_def)
      have run: "generate_ai_reply e p u prefer tr
          = return_if_ok (ai_call_microservice e p u [] t3) (fallback_step e p)"
        unfolding a(1) by (rule s4)
      have "invoked Microservice (snd (return_if_ok (ai_call_microservice e p u [] t3)
                                         (fallback_step e p)))
              = invoked Microservice (snd (ai_call_microservice e p u [] t3))"
        by (rule invoked_return_if_ok_same) (rule invoked_fallback_step)
      with run first a(2) have "invoked Microservice (snd (generate_ai_reply e p u prefer tr))
              = invoked Microservice tr + 2"
        by (simp add: invoked_microservice)
      with True run show ?thesis by simp
    next
      case False
      then have s4: "step4 e p u prefer t3 = fallback_step e p t3"
        by (auto simp: step4_def)
      have run: "generate_ai_reply e p u prefer tr = fallback_step e p t3"
        unfolding a(1) by (rule s4)
      with a(2) have "invoked Microservice (snd (generate_ai_reply e p u prefer tr))
              = invoked Microservice tr + (if first then 1 else 0)"
        by (simp add: invoked_fallback_step)
      with False run show ?thesis by auto
    qed
  qed
  have "prefer \<noteq> JStr ''auto'' \<longrightarrow>
          invoked Microservice (snd (generate_ai_reply e p u prefer tr)) \<le> invoked Microservice tr + 1"
    using no_second_attempt by blast
  with main show ?thesis
    unfolding Let_def first_def [symmetric] t1_def [symmetric] t2_def [symmetric]
      t3_def [symmetric]
    by blast
qed

theorem auto_retries_microservice_once_witness:
  "configured (AI_SERVICE_URL flaky_env) \<noteq> None
   \<and> fails (fst (ai_call_microservice flaky_env (JStr ''hello'') (JStr ''u1'') [] []))
   \<and> fails (fst (ai_call_local_module flaky_env (JStr ''hello'') (JStr ''u1'')
                    (snd (ai_call_microservice flaky_env (JStr ''hello'') (JStr ''u1'') [] []))))
   \<and> fails (fst (ai_call_openai flaky_env (JStr ''hello'') (JStr ''u1'') None
                    (snd (ai_call_local_module flaky_env (JStr ''hello'') (JStr ''u1'')
                       (snd (ai_call_microservice flaky_env (JStr ''hello'') (JStr ''u1'') [] []))))))
   \<and> invoked Microservice
         (snd (generate_ai_reply flaky_env (JStr ''hello'') (JStr ''u1'') (JStr ''auto'') [])) = 2
   \<and> invoked Microservice
         (snd (generate_ai_reply flaky_env (JStr ''hello'') (JStr ''u1'') (JStr ''microservice'') [])) = 1
   \<and> fst (generate_ai_reply flaky_env (JStr ''hello'') (JStr ''u1'') (JStr ''microservice'') [])
       = Inr (replied (JStr greeting))"
  using auto_retries_microservice_once
          [of flaky_env "JStr ''auto''" "JStr ''hello''" "JStr ''u1''" "[]"]
        auto_retries_microservice_once
          [of flaky_env "JStr ''microservice''" "JStr ''hello''" "JStr ''u1''" "[]"]
  by (simp add: ev flaky_env_def bare_env_def ms_reply_def)

section \<open>Reply orchestrator: always a reply\<close>

text \<open>The local-module adapter and the provider adapter return dictionaries on every
  path; the microservice adapter does when every body the network answers with is an
  object.\<close>

lemma ai_call_local_module_object: "is_object (fst (ai_call_local_module e p u t))"
  by (simp add: ai_call_local_module_def Let_def local_call_def replied_object failed_object
      split: option.split json.split sum.split)

lemma openai_legacy_object: "is_object (fst (openai_legacy e m p t))"
  by (simp add: openai_legacy_def Let_def replied_object failed_object split: sum.split)

lemma openai_direct_object: "is_object (fst (openai_direct e p m t))"
  by (simp add: openai_direct_def Let_def replied_object failed_object openai_legacy_object
      split: sum.split openai_resp.split option.split)

lemma ai_call_openai_object: "is_object (fst (ai_call_openai e p u m t))"
  by (simp add: ai_call_openai_def Let_def local_call_def replied_object failed_object
       openai_direct_object split: option.split sum.split)

lemma proxy_post_object: "answers_objects e \<Longrightarrow> is_object (fst (proxy_post e url payload t))"
  by (auto simp: proxy_post_def answers_objects_def split: sum.split)

lemma ai_call_microservice_object:
  "answers_objects e \<Longrightarrow> is_object (fst (ai_call_microservice e p u x t))"
  by (simp add: ai_call_microservice_def Let_def proxy_post_object failed_object split: option.split)

lemma fallback_step_string:
  "\<exists>fb t'. simple_fallback_reply e (JStr s) t = (Inr fb, t')
      \<and> fallback_step e (JStr s) t = (Inr (replied fb), t')"
  by (simp add: fallback_step_def simple_fallback_reply_def Let_def split: option.split sum.split)

text \<open>A result of the local-module adapter or of the provider adapter that succeeds is
  \<^verbatim>\<open>{"ok": True, "reply": ...}\<close>; a result of the microservice adapter that succeeds is a
  body the network answered with.\<close>

lemma local_call_shape:
  "(\<And>out. \<exists>r. wrap out = replied r) \<Longrightarrow>
     succeeds (fst (local_call name args outcome wrap logmsg reason t)) \<Longrightarrow>
     \<exists>r. fst (local_call name args outcome wrap logmsg reason t) = replied r"
  by (cases outcome) (simp_all add: local_call_def failed_not_succeeds)

lemma local_call_replied_shape:
  "succeeds (fst (local_call name args outcome replied logmsg reason t)) \<Longrightarrow>
     \<exists>r. fst (local_call name args outcome replied logmsg reason t) = replied r"
  by (rule local_call_shape) blast

lemma ai_call_local_module_shape:
  assumes "succeeds (fst (ai_call_local_module e p u t))"
  shows "\<exists>r. fst (ai_call_local_module e p u t) = replied r"
proof (cases "local_ai e")
  case None
  with assms show ?thesis by (simp add: ai_call_local_module_def Let_def failed_not_succeeds)
next
  case (Some m)
  have chat_wrap: "\<And>res. \<exists>r. (case res of
                            JObj kv \<Rightarrow> (case map_of kv ''reply'' of
                                          Some r \<Rightarrow> replied r
                                        | None \<Rightarrow> replied (JStr (py_str e res)))
                          | _ \<Rightarrow> replied (JStr (py_str e res))) = replied r"
    by (auto split: json.split option.split)
  show ?thesis
  proof (cases "ai_generate m")
    case (Some f)
    with \<open>local_ai e = Some m\<close> assms show ?thesis
      by (simp add: ai_call_local_module_def Let_def local_call_replied_shape)
  next
    case None
    note g = this
    show ?thesis
    proof (cases "generate_reply m")
      case (Some f)
      with g \<open>local_ai e = Some m\<close> assms show ?thesis
        by (simp add: ai_call_local_module_def Let_def local_call_replied_shape)
    next
      case None
      note r = this
      show ?thesis
      proof (cases "chat m")
        case (Some f)
        with g r \<open>local_ai e = Some m\<close> assms show ?thesis
          by (simp add: ai_call_local_module_def Let_def) (erule local_call_shape [OF chat_wrap])
      next
        case None
        with g r \<open>local_ai e = Some m\<close> assms show ?thesis
          by (simp add: ai_call_local_module_def Let_def failed_not_succeeds)
      qed
    qed
  qed
qed

lemma openai_legacy_shape:
  "succeeds (fst (openai_legacy e m p t)) \<Longrightarrow> \<exists>r. fst (openai_legacy e m p t) = replied r"
  by (cases "openai_completion e (seen KOpenAI (t @ [LogException
         ''openai.chat.completions failed, trying completions endpoint''])) m p")
     (auto simp: openai_legacy_def Let_def failed_not_succeeds)

lemma openai_direct_shape:
  "succeeds (fst (openai_direct e p m t)) \<Longrightarrow> \<exists>r. fst (openai_direct e p m t) = replied r"
  by (auto simp: openai_direct_def Let_def failed_not_succeeds
       split: if_splits sum.splits openai_resp.splits option.splits
       dest: openai_legacy_shape)

lemma ai_call_openai_shape:
  "succeeds (fst (ai_call_openai e p u m t)) \<Longrightarrow> \<exists>r. fst (ai_call_openai e p u m t) = replied r"
  by (auto simp: ai_call_openai_def Let_def split: option.splits
       dest: openai_direct_shape local_call_replied_shape)

lemma ai_call_microservice_shape:
  "succeeds (fst (ai_call_microservice e p u x t)) \<Longrightarrow>
     \<exists>n url payload. http_post e n url payload = Inr (fst (ai_call_microservice e p u x t))"
  by (auto simp: ai_call_microservice_def Let_def proxy_post_def failed_not_succeeds
       error_dict_not_succeeds split: option.splits sum.splits)

text \<open>From every step on, a run on a prompt string returns a result that succeeds, built
  by the function itself or answered by the microservice.\<close>

lemma return_if_ok_from:
  assumes "is_object (fst c)"
      and "succeeds (fst c) \<Longrightarrow> P (fst c)"
      and "\<And>t. \<exists>res t'. rest t = (Inr res, t') \<and> succeeds res \<and> P res"
  shows "\<exists>res t'. return_if_ok c rest = (Inr res, t') \<and> succeeds res \<and> P res"
proof -
  from assms(1) consider "succeeds (fst c)" | "fails (fst c)"
    using object_succeeds_or_fails by blast
  then show ?thesis
  proof cases
    case 1
    with assms(2) show ?thesis by (simp add: return_if_ok_succeeds)
  next
    case 2
    then show ?thesis using assms(3) by (simp add: return_if_ok_fails)
  qed
qed

lemma fallback_step_from:
  "\<exists>res t'. fallback_step e (JStr s) t = (Inr res, t') \<and> succeeds res
      \<and> ((\<exists>out. res = replied out) \<or> (\<exists>n url payload. http_post e n url payload = Inr res))"
  using fallback_step_string [of e s t] replied_succeeds by auto

lemma step4_from:
  assumes "answers_objects e"
  shows "\<exists>res t'. step4 e (JStr s) u pr t = (Inr res, t') \<and> succeeds res
      \<and> ((\<exists>out. res = replied out) \<or> (\<exists>n url payload. http_post e n url payload = Inr res))"
proof (cases "configured (AI_SERVICE_URL e) \<noteq> None \<and> pr = JStr ''auto''")
  case True
  have "\<exists>res t'. return_if_ok (ai_call_microservice e (JStr s) u [] t) (fallback_step e (JStr s))
          = (Inr res, t') \<and> succeeds res
      \<and> ((\<exists>out. res = replied out) \<or> (\<exists>n url payload. http_post e n url payload = Inr res))"
  proof (rule return_if_ok_from [OF ai_call_microservice_object [OF assms]])
    assume "succeeds (fst (ai_call_microservice e (JStr s) u [] t))"
    then show "(\<exists>out. fst (ai_call_microservice e (JStr s) u [] t) = replied out)
        \<or> (\<exists>n url payload. http_post e n url payload
               = Inr (fst (ai_call_microservice e (JStr s) u [] t)))"
      using ai_call_microservice_shape by blast
  qed (rule fallback_step_from)
  with True show ?thesis by (simp add: step4_def)
next
  case False
  with fallback_step_from [of e s t] show ?thesis by (auto simp: step4_def)
qed

lemma step3_from:
  assumes "answers_objects e"
  shows "\<exists>res t'. step3 e (JStr s) u pr t = (Inr res, t') \<and> succeeds res
      \<and> ((\<exists>out. res = replied out) \<or> (\<exists>n url payload. http_post e n url payload = Inr res))"
  unfolding step3_def
proof (rule return_if_ok_from [OF ai_call_openai_object])
  assume "succeeds (fst (ai_call_openai e (JStr s) u None t))"
  then show "(\<exists>out. fst (ai_call_openai e (JStr s) u None t) = replied out)
      \<or> (\<exists>n url payload. http_post e n url payload = Inr (fst (ai_call_openai e (JStr s) u None t)))"
    using ai_call_openai_shape by blast
qed (rule step4_from [OF assms])

lemma step2_from:
  assumes "answers_objects e"
  shows "\<exists>res t'. step2 e (JStr s) u pr t = (Inr res, t') \<and> succeeds res
      \<and> ((\<exists>out. res = replied out) \<or> (\<exists>n url payload. http_post e n url payload = Inr res))"
  unfolding step2_def
proof (rule return_if_ok_from [OF ai_call_local_module_object])
  assume "succeeds (fst (ai_call_local_module e (JStr s) u t))"
  then show "(\<exists>out. fst (ai_call_local_module e (JStr s) u t) = replied out)
      \<or> (\<exists>n url payload. http_post e n url payload = Inr (fst (ai_call_local_module e (JStr s) u t)))"
    using ai_call_local_module_shape by blast
qed (rule step3_from [OF assms])

lemma generate_ai_reply_from:
  assumes "answers_objects e"
  shows "\<exists>res t'. generate_ai_reply e (JStr s) u pr t = (Inr res, t') \<and> succeeds res
      \<and> ((\<exists>out. res = replied out) \<or> (\<exists>n url payload. http_post e n url payload = Inr res))"
proof (cases "configured (AI_SERVICE_URL e) \<noteq> None
                \<and> pr \<in> set [JStr ''microservice'', JStr ''auto'']")
  case True
  have "\<exists>res t'. return_if_ok (ai_call_microservice e (JStr s) u [] t) (step2 e (JStr s) u pr)
          = (Inr res, t') \<and> succeeds res
      \<and> ((\<exists>out. res = replied out) \<or> (\<exists>n url payload. http_post e n url payload = Inr res))"
  proof (rule return_if_ok_from [OF ai_call_microservice_object [OF assms]])
    assume "succeeds (fst (ai_call_microservice e (JStr s) u [] t))"
    then show "(\<exists>out. fst (ai_call_microservice e (JStr s) u [] t) = replied out)
        \<or> (\<exists>n url payload. http_post e n url payload
               = Inr (fst (ai_call_microservice e (JStr s) u [] t)))"
      using ai_call_microservice_shape by blast
  qed (rule step2_from [OF assms])
  with True show ?thesis by (simp add: generate_ai_reply_def)
next
  case False
  with step2_from [OF assms, of s u pr t] show ?thesis by (auto simp: generate_ai_reply_def)
qed

text \<open>When all adapters that are tried fail, the reply is the wrapped fallback text.\<close>

lemma all_adapters_fail:
  assumes "first = (configured (AI_SERVICE_URL e) \<noteq> None
                     \<and> pr \<in> set [JStr ''microservice'', JStr ''auto''])"
      and "t1 = (if first then snd (ai_call_microservice e p u [] tr) else tr)"
      and "t2 = snd (ai_call_local_module e p u t1)"
      and "t3 = snd (ai_call_openai e p u None t2)"
      and "again = (configured (AI_SERVICE_URL e) \<noteq> None \<and> pr = JStr ''auto'')"
      and "t4 = (if again then snd (ai_call_microservice e p u [] t3) else t3)"
      and "first \<longrightarrow> fails (fst (ai_call_microservice e p u [] tr))"
      and "fails (fst (ai_call_local_module e p u t1))"
      and "fails (fst (ai_call_openai e p u None t2))"
      and "again \<longrightarrow> fails (fst (ai_call_microservice e p u [] t3))"
  shows "generate_ai_reply e p u pr tr = fallback_step e p t4"
proof -
  have "generate_ai_reply e p u pr tr = step4 e p u pr t3"
    by (rule after_three_failures(1) [OF assms(1,2,3,4,7,8,9)])
  also have "\<dots> = fallback_step e p t4"
  proof (cases again)
    case True
    with assms(5) have "step4 e p u pr t3
        = return_if_ok (ai_call_microservice e p u [] t3) (fallback_step e p)"
      by (simp add: step4_def)
    with True assms(6,10) show ?thesis by (simp add: return_if_ok_fails)
  next
    case False
    with assms(5) have "step4 e p u pr t3 = fallback_step e p t3"
      by (auto simp: step4_def)
    with False assms(6) show ?thesis by simp
  qed
  finally show ?thesis .
qed

text \<open>In a world whose microservice answers with objects, \<open>generate_ai_reply\<close> returns for
  every prompt string, user and preference, and never raises: the result has a truthy
  \<^verbatim>\<open>ok\<close> and is \<^verbatim>\<open>{"ok": True, "reply": ...}\<close> or the microservice's answer as it came.
  When every adapter that is tried fails, the result is the text of the fallback
  responder wrapped as \<^verbatim>\<open>{"ok": True, "reply": <text>}\<close>.\<close>

lemma generate_ai_reply_ok:
  assumes "answers_objects e"
  shows "(\<exists>res t'. generate_ai_reply e (JStr s) user prefer tr = (Inr res, t') \<and> succeeds res
           \<and> ((\<exists>out. res = replied out)
               \<or> (\<exists>n url payload. http_post e n url payload = Inr res)))
     \<and> (let first = (configured (AI_SERVICE_URL e) \<noteq> None
                       \<and> prefer \<in> set [JStr ''microservice'', JStr ''auto'']);
             t1 = (if first then snd (ai_call_microservice e (JStr s) user [] tr) else tr);
             t2 = snd (ai_call_local_module e (JStr s) user t1);
             t3 = snd (ai_call_openai e (JStr s) user None t2);
             again = (configured (AI_SERVICE_URL e) \<noteq> None \<and> prefer = JStr ''auto'');
             t4 = (if again then snd (ai_call_microservice e (JStr s) user [] t3) else t3)
         in (first \<longrightarrow> fails (fst (ai_call_microservice e (JStr s) user [] tr)))
            \<and> fails (fst (ai_call_local_module e (JStr s) user t1))
            \<and> fails (fst (ai_call_openai e (JStr s) user None t2))
            \<and> (again \<longrightarrow> fails (fst (ai_call_microservice e (JStr s) user [] t3)))
            \<longrightarrow> (\<exists>fb t'. simple_fallback_reply e (JStr s) t4 = (Inr fb, t')
                   \<and> generate_ai_reply e (JStr s) user prefer tr = (Inr (replied fb), t')))"
proof (rule conjI)
  show "\<exists>res t'. generate_ai_reply e (JStr s) user prefer tr = (Inr res, t') \<and> succeeds res
           \<and> ((\<exists>out. res = replied out)
               \<or> (\<exists>n url payload. http_post e n url payload = Inr res))"
    by (rule generate_ai_reply_from [OF assms])
next
  define first where "first = (configured (AI_SERVICE_URL e) \<noteq> None
                       \<and> prefer \<in> set [JStr ''microservice'', JStr ''auto''])"
  define t1 where "t1 = (if first then snd (ai_call_microservice e (JStr s) user [] tr) else tr)"
  define t2 where "t2 = snd (ai_call_local_module e (JStr s) user t1)"
  define t3 where "t3 = snd (ai_call_openai e (JStr s) user None t2)"
  define again where "again = (configured (AI_SERVICE_URL e) \<noteq> None \<and> prefer = JStr ''auto'')"
  define t4 where "t4 = (if again then snd (ai_call_microservice e (JStr s) user [] t3) else t3)"
  have "\<exists>fb t'. simple_fallback_reply e (JStr s) t4 = (Inr fb, t')
          \<and> generate_ai_reply e (JStr s) user prefer tr = (Inr (replied fb), t')"
    if "first \<longrightarrow> fails (fst (ai_call_microservice e (JStr s) user [] tr))"
      and "fails (fst (ai_call_local_module e (JStr s) user t1))"
      and "fails (fst (ai_call_openai e (JStr s) user None t2))"
      and "again \<longrightarrow> fails (fst (ai_call_microservice e (JStr s) user [] t3))"
  proof -
    have "generate_ai_reply e (JStr s) user prefer tr = fallback_step e (JStr s) t4"
      by (rule all_adapters_fail [OF first_def t1_def t2_def t3_def again_def t4_def that])
    with fallback_step_string [of e s t4] show ?thesis by auto
  qed
  then show "let first = (configured (AI_SERVICE_URL e) \<noteq> None
                       \<and> prefer \<in> set [JStr ''microservice'', JStr ''auto'']);
             t1 = (if first then snd (ai_call_microservice e (JStr s) user [] tr) else tr);
             t2 = snd (ai_call_local_module e (JStr s) user t1);
             t3 = snd (ai_call_openai e (JStr s) user None t2);
             again = (configured (AI_SERVICE_URL e) \<noteq> None \<and> prefer = JStr ''auto'');
             t4 = (if again then snd (ai_call_microservice e (JStr s) user [] t3) else t3)
         in (first \<longrightarrow> fails (fst (ai_call_microservice e (JStr s) user [] tr)))
            \<and> fails (fst (ai_call_local_module e (JStr s) user t1))
            \<and> fails (fst (ai_call_openai e (JStr s) user None t2))
            \<and> (again \<longrightarrow> fails (fst (ai_call_microservice e (JStr s) user [] t3)))
            \<longrightarrow> (\<exists>fb t'. simple_fallback_reply e (JStr s) t4 = (Inr fb, t')
                   \<and> generate_ai_reply e (JStr s) user prefer tr = (Inr (replied fb), t'))"
    unfolding Let_def first_def [symmetric] t1_def [symmetric] t2_def [symmetric]
      t3_def [symmetric] again_def [symmetric] t4_def [symmetric]
    by blast
qed

lemma generate_ai_reply_ok_example:
  "answers_objects bare_env
   \<and> fails (fst (ai_call_local_module bare_env (JStr ''hello'') (JStr ''u1'') []))
   \<and> fails (fst (ai_call_openai bare_env (JStr ''hello'') (JStr ''u1'') None
                    (snd (ai_call_local_module bare_env (JStr ''hello'') (JStr ''u1'') []))))
   \<and> generate_ai_reply bare_env (JStr ''hello'') (JStr ''u1'') (JStr ''auto'') []
       = (Inr (JObj [(''ok'', JBool True), (''reply'', JStr greeting)]),
          [Invoke LocalModule, Invoke Provider, FallbackCall])"
proof -
  have h: "answers_objects bare_env"
    by (simp add: answers_objects_def bare_env_def)
  from generate_ai_reply_ok [OF h, of "''hello''" "JStr ''u1''" "JStr ''auto''" "[]"]
  show ?thesis
    using h by (simp add: ev bare_env_def)
qed

text \<open>
  Claim C1 fails in a world whose microservice answers with JSON that is not an object.
  \<open>proxy_post\<close> hands the parsed body on as it is, and the test \<^verbatim>\<open>res.get("ok")\<close> of step 1
  is outside every \<^verbatim>\<open>try\<close>: with the microservice answering \<^verbatim>\<open>[]\<close>, the prompt \<^verbatim>\<open>hello\<close>
  raises \<^verbatim>\<open>AttributeError\<close>. No result is returned and the fallback responder is not
  reached. Elsewhere the code guards against such an answer: \<open>ai_call_local_module\<close> tests
  \<^verbatim>\<open>isinstance(res, dict)\<close> before it reads what \<^verbatim>\<open>chat\<close> returned, and \<open>chat_endpoint\<close> reads
  the voice service's answer inside a \<^verbatim>\<open>try\<close>.
\<close>

theorem array_answer_raises:
  "generate_ai_reply array_env (JStr ''hello'') (JStr ''u1'') (JStr ''auto'') []
     = (Inl AttributeError,
        [Invoke Microservice,
         HttpPost ''http://ai/chat'' (JObj [(''prompt'', JStr ''hello''), (''user'', JStr ''u1'')])])"
  by (simp add: ev array_env_def bare_env_def)

section \<open>Chat request handler: validation\<close>

text \<open>
  A request whose JSON body is missing, falsy, or an object in which \<^verbatim>\<open>message\<close> and
  \<^verbatim>\<open>prompt\<close> are both absent or empty (falsy) is answered with status 400 and
  \<^verbatim>\<open>{"ok": false, "error": "empty_message"}\<close>, and the trace is left as it was: no adapter
  is invoked, no \<^verbatim>\<open>ChatLog\<close> row and no event is written. A body whose \<^verbatim>\<open>message\<close> is non-empty
  is never answered with status 400.
\<close>

lemma chat_endpoint_validation:
  "(\<not> truthy (dget body ''message'' JNull) \<and> \<not> truthy (dget body ''prompt'' JNull) \<longrightarrow>
      chat_endpoint e (Some (JObj body)) tr = (empty_message, tr))
   \<and> chat_endpoint e None tr = (empty_message, tr)
   \<and> (\<not> truthy j \<longrightarrow> chat_endpoint e (Some j) tr = (empty_message, tr))
   \<and> (truthy (dget body ''message'' JNull) \<longrightarrow>
        (\<forall>b. fst (chat_endpoint e (Some (JObj body)) tr) \<noteq> Inr (400, b)))"
  by (auto simp: chat_endpoint_def py_or_def Let_def dget_def empty_message_def
       split: option.splits sum.splits prod.splits json.splits if_splits)

lemma chat_endpoint_validation_example:
  "\<not> truthy (dget [(''message'', JStr [])] ''message'' JNull)
   \<and> \<not> truthy (dget [(''message'', JStr [])] ''prompt'' JNull)
   \<and> chat_endpoint bare_env (Some (JObj [(''message'', JStr [])])) []
       = (Inr (400, JObj [(''ok'', JBool False), (''error'', JStr ''empty_message'')]), [])
   \<and> truthy (dget [(''message'', JStr ''hello'')] ''message'' JNull)
   \<and> fst (chat_endpoint bare_env (Some (JObj [(''message'', JStr ''hello'')])) [])
       \<noteq> Inr (400, JObj [(''ok'', JBool False), (''error'', JStr ''empty_message'')])"
  using chat_endpoint_validation [of "[(''message'', JStr [])]" bare_env "[]" JNull]
        chat_endpoint_validation [of "[(''message'', JStr ''hello'')]" bare_env "[]" JNull]
  by (simp add: dget_def empty_message_def)

text \<open>
  Claim C7 fails for a body that parses to a truthy JSON value other than an object.
  \<^verbatim>\<open>request.get_json(silent=True) or {}\<close> replaces a missing body and a falsy one by the
  empty dictionary, but lets the array \<^verbatim>\<open>[1]\<close> through, and \<^verbatim>\<open>body.get("message")\<close> raises
  \<^verbatim>\<open>AttributeError\<close>: a request with neither a message nor a prompt is answered with
  status 500, not with status 400 and \<^verbatim>\<open>empty_message\<close>.
\<close>

theorem non_object_body_raises:
  "chat_endpoint bare_env (Some (JArr [JNum 1])) [] = (Inl AttributeError, [])"
  by (simp add: chat_endpoint_def py_or_def)

section \<open>Chat request handler: what is recorded\<close>

text \<open>Counting interactions across the steps of the handler.\<close>

lemma seen_append: "seen k (t @ evs) = seen k t + seen k evs"
  by (simp add: seen_def)

lemma seen_save_chat_log:
  "k \<noteq> KDb \<Longrightarrow> seen k (save_chat_log e u m r l t) = seen k t"
  by (simp add: save_chat_log_def seen_def)

lemma seen_append_event:
  "k \<noteq> KDb \<Longrightarrow> k \<noteq> KFile \<Longrightarrow> k \<noteq> KClock \<Longrightarrow>
     seen k (snd (append_event e ty payload t)) = seen k t"
  by (simp add: append_event_def append_event_file_def append_event_db_def Let_def seen_def)

lemma fst_append_event: "fst (append_event e ty payload t) = Inr ()"
  by (simp add: append_event_def Let_def)

text \<open>What the handler records once \<open>generate_ai_reply\<close> has returned, whichever adapter or
  the fallback responder produced the reply: one \<^verbatim>\<open>ChatLog\<close> row, then one line of the event
  file and one \<^verbatim>\<open>Event\<close> row of type \<^verbatim>\<open>ai_query\<close>, each attempted whether or not the writes
  go through, and nothing else.\<close>

lemma filter_persists_text_to_speech:
  "filter persists (snd (text_to_speech e body reply t)) = filter persists t"
  by (simp add: text_to_speech_def proxy_post_def Let_def
      split: option.split sum.split json.split prod.split)

lemma chat_endpoint_records:
  assumes msg: "truthy (py_or (py_or (dget body ''message'' JNull) (dget body ''prompt'' JNull)) (JStr []))"
      and gen: "generate_ai_reply e
                  (py_or (py_or (dget body ''message'' JNull) (dget body ''prompt'' JNull)) (JStr []))
                  (dget body ''user'' (JStr ''guest'')) (dget body ''prefer'' (JStr ''auto''))
                  (tr @ [ClockRead]) = (Inr res, tr1)"
  shows "filter persists (snd (chat_endpoint e (Some (JObj body)) tr)) =
           filter persists tr1 @
           [ChatLogInsert (dget body ''user'' (JStr ''guest''))
              (py_or (py_or (dget body ''message'' JNull) (dget body ''prompt'' JNull)) (JStr []))
              (case res of JObj kv \<Rightarrow> dget kv ''reply'' no_reply | _ \<Rightarrow> JNull)
              (latency_of e (clock e (seen KClock tr)) (clock e (seen KClock tr1))),
            FileAppend (JObj [(''type'', JStr ''ai_query''),
              (''payload'', JObj [(''user'', dget body ''user'' (JStr ''guest'')),
                 (''prompt'', py_or (py_or (dget body ''message'' JNull) (dget body ''prompt'' JNull)) (JStr [])),
                 (''latency'', JNum (latency_of e (clock e (seen KClock tr)) (clock e (seen KClock tr1))))]),
              (''ts'', JNum (clock e (Suc (seen KClock tr1))))]),
            EventInsert ''ai_query''
              (JObj [(''user'', dget body ''user'' (JStr ''guest'')),
                 (''prompt'', py_or (py_or (dget body ''message'' JNull) (dget body ''prompt'' JNull)) (JStr [])),
                 (''latency'', JNum (latency_of e (clock e (seen KClock tr)) (clock e (seen KClock tr1))))])]"
proof -
  from gen have "is_object res" by (rule generate_ai_reply_object)
  then obtain kv where kv: "res = JObj kv" by (cases res) simp_all
  have body: "py_or (JObj body) (JObj []) = JObj body"
    by (cases body) (simp_all add: py_or_def)
  show ?thesis
    using msg
    by (simp add: chat_endpoint_def body Let_def gen kv append_event_def append_event_file_def
          append_event_db_def save_chat_log_def case_prod_beta filter_persists_text_to_speech
          seen_append)
       (simp add: seen_def)
qed

text \<open>
  Claim C8 fails for a request that passes validation and on which \<open>generate_ai_reply\<close>
  raises. The message \<^verbatim>\<open>5\<close> is truthy, so \<^verbatim>\<open>{"message": 5}\<close> passes \<^verbatim>\<open>if not message\<close>; with
  nothing configured every adapter fails, and \<^verbatim>\<open>prompt.lower()\<close> in \<open>simple_fallback_reply\<close>
  raises \<^verbatim>\<open>AttributeError\<close>. The exception leaves the handler before the \<^verbatim>\<open>ChatLog\<close> row
  and the \<^verbatim>\<open>ai_query\<close> event are attempted: nothing is recorded.
\<close>

theorem number_message_raises:
  "chat_endpoint bare_env (Some (JObj [(''message'', JNum 5)])) []
     = (Inl AttributeError, [ClockRead, Invoke LocalModule, Invoke Provider, FallbackCall])
   \<and> filter persists (snd (chat_endpoint bare_env (Some (JObj [(''message'', JNum 5)])) [])) = []"
  by (simp add: ev bare_env_def)

text \<open>The same happens to the message \<^verbatim>\<open>hello\<close> when the microservice answers with a JSON
  array: \<open>generate_ai_reply\<close> raises in step 1, and nothing is recorded.\<close>

lemma array_answer_not_recorded:
  "chat_endpoint array_env (Some (JObj [(''message'', JStr ''hello'')])) []
     = (Inl AttributeError,
        [ClockRead, Invoke Microservice,
         HttpPost ''http://ai/chat'' (JObj [(''prompt'', JStr ''hello''), (''user'', JStr ''guest'')])])"
  by (simp add: ev array_env_def bare_env_def)

section \<open>Chat request handler: the audio field\<close>

lemma dget_error_dict: "dget [(''ok'', a), (''error'', b)] ''audio'' d = d"
  by (simp add: dget_def)

text \<open>What the text-to-speech step hands back: the reference found under \<^verbatim>\<open>audio\<close> in the
  voice service's answer, or the value returned by the local voice module; \<^verbatim>\<open>None\<close> when the
  request fails, when the answer is no object or has no \<^verbatim>\<open>audio\<close> key, when the local module
  raises, and when there is no collaborator at all.\<close>

lemma text_to_speech_value:
  "fst (text_to_speech e body reply t) =
     (case configured (VOICE_SERVICE_URL e) of
        Some base \<Rightarrow>
          (case http_post e (seen KPost t) (rstrip_slash base @ ''/speak'')
                  (JObj [(''text'', reply), (''language'', dget body ''language'' (JStr ''en'')),
                         (''mood'', dget body ''mood'' (JStr ''cheerful''))]) of
             Inl msg \<Rightarrow> JNull
           | Inr (JObj answer) \<Rightarrow> dget answer ''audio'' JNull
           | Inr _ \<Rightarrow> JNull)
      | None \<Rightarrow>
          (case local_voice_speak_text e of
             None \<Rightarrow> JNull
           | Some f \<Rightarrow>
               (case f (seen KLocal t) reply (dget body ''language'' (JStr ''en''))
                       (dget body ''mood'' (JStr ''cheerful'')) of
                  Inl err \<Rightarrow> JNull
                | Inr a \<Rightarrow> a)))"
  by (simp add: text_to_speech_def proxy_post_def Let_def dget_error_dict
      split: option.split sum.split json.split)

lemma chat_endpoint_voice:
  assumes msg: "truthy (py_or (py_or (dget body ''message'' JNull) (dget body ''prompt'' JNull)) (JStr []))"
      and voice: "truthy (dget body ''voice'' (JBool False))"
      and gen: "generate_ai_reply e
                  (py_or (py_or (dget body ''message'' JNull) (dget body ''prompt'' JNull)) (JStr []))
                  (dget body ''user'' (JStr ''guest'')) (dget body ''prefer'' (JStr ''auto''))
                  (tr @ [ClockRead]) = (Inr (JObj kv), tr1)"
  shows "\<exists>tr4. seen KPost tr4 = seen KPost tr1 \<and> seen KLocal tr4 = seen KLocal tr1
           \<and> chat_endpoint e (Some (JObj body)) tr =
               (Inr (200, JObj [(''ok'', JBool True), (''reply'', dget kv ''reply'' no_reply),
                                (''latency_s'',
                                 JNum (latency_of e (clock e (seen KClock tr))
                                         (clock e (seen KClock tr1)))),
                                (''audio'',
                                 fst (text_to_speech e body (dget kv ''reply'' no_reply) tr4))]),
                snd (text_to_speech e body (dget kv ''reply'' no_reply) tr4))"
proof -
  let ?message = "py_or (py_or (dget body ''message'' JNull) (dget body ''prompt'' JNull)) (JStr [])"
  let ?user = "dget body ''user'' (JStr ''guest'')"
  let ?reply = "dget kv ''reply'' no_reply"
  let ?latency = "latency_of e (clock e (seen KClock tr)) (clock e (seen KClock tr1))"
  let ?tr3 = "save_chat_log e ?user ?message ?reply ?latency (tr1 @ [ClockRead])"
  let ?payload = "JObj [(''user'', ?user), (''prompt'', ?message), (''latency'', JNum ?latency)]"
  obtain r4 tr4 where ae0: "append_event e ''ai_query'' ?payload ?tr3 = (r4, tr4)"
    by (cases "append_event e ''ai_query'' ?payload ?tr3")
  with fst_append_event [of e "''ai_query''" ?payload ?tr3]
  have ae: "append_event e ''ai_query'' ?payload ?tr3 = (Inr (), tr4)" by simp
  have tr4: "tr4 = snd (append_event e ''ai_query'' ?payload ?tr3)"
    by (simp add: ae)
  have body: "py_or (JObj body) (JObj []) = JObj body"
    by (cases body) (simp_all add: py_or_def)
  have "chat_endpoint e (Some (JObj body)) tr =
          (Inr (200, JObj [(''ok'', JBool True), (''reply'', ?reply), (''latency_s'', JNum ?latency),
                           (''audio'', fst (text_to_speech e body ?reply tr4))]),
           snd (text_to_speech e body ?reply tr4))"
    using msg voice
    by (simp add: chat_endpoint_def body Let_def gen ae case_prod_beta)
  moreover have "seen KPost tr4 = seen KPost tr1"
    unfolding tr4
    by (simp add: seen_append_event seen_save_chat_log seen_append) (simp add: seen_def)
  moreover have "seen KLocal tr4 = seen KLocal tr1"
    unfolding tr4
    by (simp add: seen_append_event seen_save_chat_log seen_append) (simp add: seen_def)
  ultimately show ?thesis by blast
qed

text \<open>
  Claim C9, as the code has it. For a request with voice requested, once
  \<open>generate_ai_reply\<close> has returned, the handler answers with status 200 and a JSON object
  that has the key \<^verbatim>\<open>audio\<close> on every path. With the voice service configured, the value
  is the \<^verbatim>\<open>audio\<close> entry of the service's answer to the handler's request, and \<^verbatim>\<open>null\<close> when
  the request fails, when the answer is not an object, or when it has no such entry.
  Without the service, the value is what the local voice module returns, and \<^verbatim>\<open>null\<close> when
  the module raises or is absent. A failure is swallowed; the key is not omitted.
\<close>

theorem chat_endpoint_audio:
  "let message = py_or (py_or (dget body ''message'' JNull) (dget body ''prompt'' JNull)) (JStr []);
       user = dget body ''user'' (JStr ''guest'');
       prefer = dget body ''prefer'' (JStr ''auto'');
       language = dget body ''language'' (JStr ''en'');
       mood = dget body ''mood'' (JStr ''cheerful'')
   in truthy message \<and> truthy (dget body ''voice'' (JBool False))
      \<and> generate_ai_reply e message user prefer (tr @ [ClockRead]) = (Inr res, tr1)
      \<longrightarrow> (\<exists>kv tr'. res = JObj kv \<and>
            (let reply = dget kv ''reply'' no_reply;
                 audio =
                   (case configured (VOICE_SERVICE_URL e) of
                      Some base \<Rightarrow>
                        (case http_post e (seen KPost tr1) (rstrip_slash base @ ''/speak'')
                                (JObj [(''text'', reply), (''language'', language), (''mood'', mood)]) of
                           Inl msg \<Rightarrow> JNull
                         | Inr (JObj answer) \<Rightarrow> dget answer ''audio'' JNull
                         | Inr _ \<Rightarrow> JNull)
                    | None \<Rightarrow>
                        (case local_voice_speak_text e of
                           None \<Rightarrow> JNull
                         | Some f \<Rightarrow>
                             (case f (seen KLocal tr1) reply language mood of
                                Inl err \<Rightarrow> JNull
                              | Inr a \<Rightarrow> a)))
             in chat_endpoint e (Some (JObj body)) tr =
                  (Inr (200, JObj [(''ok'', JBool True), (''reply'', reply),
                                   (''latency_s'',
                                    JNum (latency_of e (clock e (seen KClock tr))
                                            (clock e (seen KClock tr1)))),
                                   (''audio'', audio)]), tr')))"
proof -
  {
    assume msg: "truthy (py_or (py_or (dget body ''message'' JNull) (dget body ''prompt'' JNull)) (JStr []))"
       and voice: "truthy (dget body ''voice'' (JBool False))"
       and gen: "generate_ai_reply e
                   (py_or (py_or (dget body ''message'' JNull) (dget body ''prompt'' JNull)) (JStr []))
                   (dget body ''user'' (JStr ''guest'')) (dget body ''prefer'' (JStr ''auto''))
                   (tr @ [ClockRead]) = (Inr res, tr1)"
    from gen have "is_object res" by (rule generate_ai_reply_object)
    then obtain kv where kv: "res = JObj kv" by (cases res) simp_all
    from chat_endpoint_voice [OF msg voice gen [unfolded kv]]
    obtain tr4 where p: "seen KPost tr4 = seen KPost tr1" and l: "seen KLocal tr4 = seen KLocal tr1"
      and run: "chat_endpoint e (Some (JObj body)) tr =
               (Inr (200, JObj [(''ok'', JBool True), (''reply'', dget kv ''reply'' no_reply),
                                (''latency_s'',
                                 JNum (latency_of e (clock e (seen KClock tr))
                                         (clock e (seen KClock tr1)))),
                                (''audio'',
                                 fst (text_to_speech e body (dget kv ''reply'' no_reply) tr4))]),
                snd (text_to_speech e body (dget kv ''reply'' no_reply) tr4))"
      by blast
    have "\<exists>kv tr'. res = JObj kv \<and>
            chat_endpoint e (Some (JObj body)) tr =
               (Inr (200, JObj [(''ok'', JBool True), (''reply'', dget kv ''reply'' no_reply),
                                (''latency_s'',
                                 JNum (latency_of e (clock e (seen KClock tr))
                                         (clock e (seen KClock tr1)))),
                                (''audio'',
                                 (case configured (VOICE_SERVICE_URL e) of
                                    Some base \<Rightarrow>
                                      (case http_post e (seen KPost tr1) (rstrip_slash base @ ''/speak'')
                                              (JObj [(''text'', dget kv ''reply'' no_reply),
                                                     (''language'', dget body ''language'' (JStr ''en'')),
                                                     (''mood'', dget body ''mood'' (JStr ''cheerful''))]) of
                                         Inl msg \<Rightarrow> JNull
                                       | Inr (JObj answer) \<Rightarrow> dget answer ''audio'' JNull
                                       | Inr _ \<Rightarrow> JNull)
                                  | None \<Rightarrow>
                                      (case local_voice_speak_text e of
                                         None \<Rightarrow> JNull
                                       | Some f \<Rightarrow>
                                           (case f (seen KLocal tr1) (dget kv ''reply'' no_reply)
                                                   (dget body ''language'' (JStr ''en''))
                                                   (dget body ''mood'' (JStr ''cheerful'')) of
                                              Inl err \<Rightarrow> JNull
                                            | Inr a \<Rightarrow> a))))]), tr')"
      using kv run unfolding text_to_speech_value p l by blast
  }
  then show ?thesis unfolding Let_def by blast
qed

theorem chat_endpoint_audio_witness:
  "truthy (py_or (py_or (dget [(''message'', JStr ''hello''), (''voice'', JBool True)] ''message'' JNull)
                        (dget [(''message'', JStr ''hello''), (''voice'', JBool True)] ''prompt'' JNull))
                 (JStr []))
   \<and> truthy (dget [(''message'', JStr ''hello''), (''voice'', JBool True)] ''voice'' (JBool False))
   \<and> generate_ai_reply tts_env (JStr ''hello'') (JStr ''guest'') (JStr ''auto'') ([] @ [ClockRead])
       = (Inr (replied (JStr greeting)), [ClockRead, Invoke LocalModule, Invoke Provider, FallbackCall])
   \<and> (\<exists>tr'. chat_endpoint tts_env
               (Some (JObj [(''message'', JStr ''hello''), (''voice'', JBool True)])) []
             = (Inr (200, JObj [(''ok'', JBool True), (''reply'', JStr greeting),
                                (''latency_s'', JNum 1), (''audio'', JStr ''/audio/1.mp3'')]), tr'))"
  using chat_endpoint_audio
          [where body = "[(''message'', JStr ''hello''), (''voice'', JBool True)]" and e = tts_env
             and tr = "[]" and res = "replied (JStr greeting)"
             and ?tr1.0 = "[ClockRead, Invoke LocalModule, Invoke Provider, FallbackCall]"]
  by (simp add: ev tts_env_def bare_env_def)

text \<open>Voice requested, the voice service configured and refusing the connection: the
  answer carries \<^verbatim>\<open>"audio": null\<close>; the key is not omitted.\<close>

theorem voice_service_down_counterexample:
  "configured (VOICE_SERVICE_URL tts_down_env) = Some ''http://voice/''
   \<and> http_post tts_down_env 0 ''http://voice/speak''
         (JObj [(''text'', JStr greeting), (''language'', JStr ''en''), (''mood'', JStr ''cheerful'')])
       = Inl ''connection refused''
   \<and> fst (chat_endpoint tts_down_env
             (Some (JObj [(''message'', JStr ''hello''), (''voice'', JBool True)])) [])
       = Inr (200, JObj [(''ok'', JBool True), (''reply'', JStr greeting), (''latency_s'', JNum 1),
                         (''audio'', JNull)])"
  by (simp add: ev tts_down_env_def bare_env_def)

end
